theory Spec2Isabelle
  imports Complex_Main "HOL-Library.Sublist"
begin

section \<open>Python values and the outside world\<close>

text \<open>
  The three scripts (\<^verbatim>\<open>benchmark.py\<close>, \<^verbatim>\<open>chat_llama.py\<close>, \<^verbatim>\<open>run_llama.py\<close>) call the
  library functions \<^verbatim>\<open>load\<close>, \<^verbatim>\<open>generate\<close> and \<^verbatim>\<open>tokenizer.encode\<close>, read the clock and
  read lines from the terminal. None of that is code of the repository, so it is a
  parameter of the model: a \<open>world\<close> says what each of these calls returned or raised in
  one execution. Models and tokenizers are values of arbitrary types \<open>'m\<close> and \<open>'t\<close>: the
  scripts can only pass them on.

  Python floats that the scripts only pass on, add and divide are reals; strings are lists
  of the code points below 256. \<^verbatim>\<open>tokenizer.encode\<close>, the clock, the queries of the device
  and of the memory, and the writing of the results file are taken to return.
\<close>

type_synonym pyfloat = real

datatype exn =
    KeyboardInterrupt
  | EOFError
  | ZeroDivisionError
  | SystemExit int
  | ImportError string
  | LibraryError string

text \<open>\<^verbatim>\<open>except Exception\<close> catches everything but the two \<^verbatim>\<open>BaseException\<close>s.\<close>

fun is_Exception :: "exn \<Rightarrow> bool" where
  "is_Exception KeyboardInterrupt = False"
| "is_Exception (SystemExit c) = False"
| "is_Exception e = True"

fun is_ImportError :: "exn \<Rightarrow> bool" where
  "is_ImportError (ImportError msg) = True"
| "is_ImportError e = False"

text \<open>
  What an execution does that can be seen from outside: the calls into the libraries, in
  order, with their arguments; what the \<^verbatim>\<open>except\<close> blocks print; and the results file the
  benchmark writes. The banners and the statistics the scripts print on their normal paths
  are not recorded.
  \<open>Generate m t prompt max_tokens temperature top_p stop\<close> is the call
  \<^verbatim>\<open>generate(m, t, prompt, max_tokens=.., temperature=.., top_p=.., stop=..)\<close>, with
  \<open>None\<close> for a \<^verbatim>\<open>stop\<close> that is not passed.
\<close>

text \<open>One entry of the benchmark's \<^verbatim>\<open>results\<close> list (a dict with these five keys).\<close>

record bench_result =
  res_prompt :: string
  res_input_tokens :: nat
  res_avg_output_tokens :: pyfloat
  res_avg_generation_time :: pyfloat
  res_avg_tokens_per_second :: pyfloat

datatype ('m, 't) event =
    ParseArgs
  | Load string
  | Encode 't string
  | Generate 'm 't string int pyfloat pyfloat "string list option"
  | Print string
  | PrintExn string exn
  | SaveResults "bench_result list"

record ('m, 't) world =
  load_result :: "string \<Rightarrow> exn + ('m \<times> 't)"
  encode :: "'t \<Rightarrow> string \<Rightarrow> nat list"
  generate_result :: "nat \<Rightarrow> exn + string"
  elapsed :: "nat \<Rightarrow> pyfloat"

text \<open>
  \<open>generate_result W k\<close> is what the \<open>k\<close>-th call slot of \<^verbatim>\<open>generate\<close> returned or
  raised, and \<open>elapsed W k\<close> the difference of the two \<^verbatim>\<open>time.time()\<close> readings around it.

  A computation is the events it caused and then either the exception that left it or
  its value.
\<close>

type_synonym ('m, 't, 'a) comp = "('m, 't) event list \<times> (exn + 'a)"

definition ret :: "'a \<Rightarrow> ('m, 't, 'a) comp" where
  "ret x = ([], Inr x)"

definition raise :: "exn \<Rightarrow> ('m, 't, 'a) comp" where
  "raise e = ([], Inl e)"

definition emit :: "('m, 't) event \<Rightarrow> ('m, 't, unit) comp" where
  "emit ev = ([ev], Inr ())"

definition lift :: "exn + 'a \<Rightarrow> ('m, 't, 'a) comp" where
  "lift r = ([], r)"

definition lib :: "('m, 't) event \<Rightarrow> exn + 'a \<Rightarrow> ('m, 't, 'a) comp" where
  "lib ev r = ([ev], r)"

definition andthen :: "('m, 't, 'a) comp \<Rightarrow> ('a \<Rightarrow> ('m, 't, 'b) comp) \<Rightarrow> ('m, 't, 'b) comp" where
  "andthen c f =
     (case c of
        (tr, Inl e) \<Rightarrow> (tr, Inl e)
      | (tr, Inr x) \<Rightarrow> (case f x of (tr', r) \<Rightarrow> (tr @ tr', r)))"

text \<open>\<^verbatim>\<open>try: c except ...: h\<close>: the handler \<open>h e\<close> is \<open>None\<close> when no clause matches \<open>e\<close>.\<close>

definition try_except ::
  "('m, 't, 'a) comp \<Rightarrow> (exn \<Rightarrow> ('m, 't, 'a) comp option) \<Rightarrow> ('m, 't, 'a) comp" where
  "try_except c h =
     (case c of
        (tr, Inl e) \<Rightarrow>
          (case h e of
             None \<Rightarrow> (tr, Inl e)
           | Some (tr', r) \<Rightarrow> (tr @ tr', r))
      | (tr, Inr x) \<Rightarrow> (tr, Inr x))"

definition py_div :: "pyfloat \<Rightarrow> pyfloat \<Rightarrow> exn + pyfloat" where
  "py_div a b = (if b = 0 then Inl ZeroDivisionError else Inr (a / b))"

subsection \<open>String methods\<close>

definition isspace :: "char \<Rightarrow> bool" where
  "isspace c \<longleftrightarrow>
     c \<in> set [CHR 0x09, CHR 0x0A, CHR 0x0B, CHR 0x0C, CHR 0x0D,
              CHR 0x1C, CHR 0x1D, CHR 0x1E, CHR 0x1F, CHR 0x20, CHR 0x85, CHR 0xA0]"

definition strip :: "string \<Rightarrow> string" where
  "strip s = rev (dropWhile isspace (rev (dropWhile isspace s)))"

definition lower_char :: "char \<Rightarrow> char" where
  "lower_char c =
     (let n = (of_char c :: nat) in
      if (65 \<le> n \<and> n \<le> 90) \<or> (192 \<le> n \<and> n \<le> 222 \<and> n \<noteq> 215)
      then char_of (n + 32) else c)"

definition lower :: "string \<Rightarrow> string" where
  "lower s = map lower_char s"

definition startswith :: "string \<Rightarrow> string \<Rightarrow> bool" where
  "startswith s p \<longleftrightarrow> take (length p) s = p"

definition default_model :: string where
  "default_model = ''TheBloke/Llama-2-13B-chat-AWQ''"

text \<open>\<^verbatim>\<open>model_path or "TheBloke/Llama-2-13B-chat-AWQ"\<close>: \<^verbatim>\<open>None\<close> and the empty string are falsy.\<close>

fun or_default :: "string option \<Rightarrow> string" where
  "or_default None = default_model"
| "or_default (Some p) = (if p = [] then default_model else p)"

section \<open>The layout of the source files\<close>

text \<open>
  Python compiles a whole file before it executes its first statement, and the compiler
  rejects a file whose indentation does not follow its block structure. A logical line is
  given here by the number of its first physical line, the column of its first token, and
  whether it ends with a colon (and so opens a block). \<open>indent_error\<close> follows the
  compiler: it keeps the stack of open indentation levels and returns the first line that
  is indented without a block to open, is not indented where a block must start, or
  dedents to a column that no open block has (\<open>Some 0\<close>: the file ends where a block
  must start).
\<close>

type_synonym layout = "(nat \<times> nat \<times> bool) list"

fun indent_error :: "nat list \<Rightarrow> bool \<Rightarrow> layout \<Rightarrow> nat option" where
  "indent_error stack opened [] = (if opened then Some 0 else None)"
| "indent_error stack opened ((line, col, opens) # rest) =
     (if opened then
        (if hd stack < col then indent_error (col # stack) opens rest else Some line)
      else if hd stack < col then Some line
      else
        (let stack' = dropWhile (\<lambda>c. col < c) stack in
         if stack' \<noteq> [] \<and> hd stack' = col then indent_error stack' opens rest
         else Some line))"

definition benchmark_layout :: layout where
  "benchmark_layout =
     [(2, 0, False), (7, 0, False), (8, 0, False), (9, 0, False), (10, 0, False),
      (11, 0, False), (13, 0, True), (14, 4, False), (15, 4, False), (16, 0, True),
      (17, 4, False), (18, 4, False), (19, 4, False), (21, 0, True), (22, 4, False),
      (23, 4, False), (24, 4, False), (25, 4, False), (27, 0, True), (28, 4, False),
      (29, 4, False), (30, 4, False), (33, 4, False), (41, 4, False), (42, 4, False),
      (45, 4, False), (46, 4, False), (48, 4, False), (50, 4, False), (51, 4, False),
      (53, 4, False), (54, 4, False), (55, 4, False), (58, 4, False), (60, 4, True),
      (61, 8, False), (63, 8, False), (64, 8, False), (67, 8, False), (68, 8, False),
      (70, 8, True), (71, 12, False), (73, 12, False), (82, 12, False), (83, 12, False),
      (85, 12, False), (86, 12, False), (88, 12, True), (89, 16, False), (92, 8, False),
      (93, 8, False), (94, 8, False), (96, 8, False), (104, 8, False), (105, 8, False),
      (106, 8, False), (107, 8, False), (110, 4, False), (112, 4, False), (113, 4, False),
      (114, 4, False), (115, 4, False), (117, 4, False), (118, 4, False), (119, 4, False),
      (120, 4, False), (121, 4, False), (123, 4, True), (124, 8, False), (125, 4, True),
      (126, 8, False), (127, 4, True), (128, 8, False), (129, 4, True), (130, 8, False),
      (132, 4, False), (134, 4, False), (136, 0, True), (137, 4, False), (138, 4, False),
      (140, 4, False), (143, 4, False), (145, 4, True), (146, 8, False), (149, 8, False),
      (150, 8, False), (152, 8, True), (153, 12, False), (154, 12, False), (156, 12, True),
      (157, 16, False), (158, 16, False), (159, 16, False), (160, 16, False), (161, 16, False),
      (163, 8, False), (165, 4, True), (166, 8, False), (167, 4, True), (168, 8, False),
      (170, 0, True), (171, 4, False)]"

definition run_llama_layout :: layout where
  "run_llama_layout =
     [(2, 0, False), (7, 0, False), (8, 0, False), (9, 0, False), (10, 0, False),
      (12, 0, True), (13, 4, False), (14, 4, False), (15, 4, False), (16, 4, False),
      (17, 0, True), (18, 4, False), (19, 4, False), (20, 4, False), (22, 0, True),
      (23, 4, False), (24, 4, True), (26, 8, False), (28, 4, False), (30, 4, True),
      (32, 8, False), (33, 8, False), (34, 8, False), (35, 4, True), (36, 8, False),
      (37, 8, False), (38, 8, False), (40, 0, True), (41, 4, False), (42, 4, False),
      (43, 4, False), (44, 4, False), (45, 4, False), (47, 4, False), (49, 4, True),
      (51, 8, False), (54, 8, False), (63, 8, False), (64, 8, False), (66, 8, False),
      (67, 8, False), (68, 8, False), (69, 8, False), (71, 8, False), (73, 4, True),
      (74, 8, False), (75, 8, False), (77, 0, True), (78, 4, False), (79, 4, False),
      (81, 4, False), (83, 4, False), (85, 4, False), (88, 4, False), (90, 4, False),
      (91, 4, False), (94, 4, False), (95, 4, False), (96, 4, True), (97, 8, False),
      (98, 4, False), (99, 4, False), (102, 4, False), (105, 4, False), (113, 4, True),
      (114, 8, False), (115, 4, True), (116, 8, False), (118, 0, True), (119, 4, False)]"

definition chat_llama_layout :: layout where
  "chat_llama_layout =
     [(2, 0, False), (7, 0, False), (8, 0, False), (9, 0, False), (10, 0, False),
      (12, 0, True), (13, 4, False), (14, 4, False), (15, 0, True), (16, 4, False),
      (17, 4, False), (18, 4, False), (20, 0, True), (21, 4, True), (22, 8, False),
      (23, 8, False), (24, 8, False), (26, 8, False), (27, 8, False), (28, 8, False),
      (29, 8, False), (30, 8, False), (31, 8, False), (32, 8, False), (34, 4, True),
      (35, 8, False), (36, 8, False), (38, 4, True), (39, 8, False), (40, 8, False),
      (41, 8, False), (43, 4, True), (44, 8, False), (45, 8, True), (46, 12, False),
      (49, 8, False), (51, 8, False), (52, 8, True), (53, 12, True), (54, 16, False),
      (55, 12, True), (56, 16, False), (58, 8, False), (59, 8, False), (61, 4, True),
      (62, 8, False), (63, 8, True), (64, 12, False), (66, 12, False), (67, 12, False),
      (78, 12, False), (79, 12, True), (80, 16, False), (82, 12, False), (83, 12, False),
      (85, 12, False), (87, 12, False), (89, 8, True), (90, 12, False), (91, 12, False),
      (93, 4, True), (94, 8, False), (95, 8, False), (97, 8, True), (98, 12, True),
      (99, 16, False), (101, 16, True), (102, 20, False), (105, 16, True), (106, 20, False),
      (107, 20, False), (108, 16, True), (109, 20, False), (110, 20, False), (111, 16, True),
      (112, 20, False), (113, 20, False), (114, 16, True), (115, 20, False), (116, 20, False),
      (117, 16, True), (118, 20, False), (119, 20, False), (122, 16, False), (125, 16, False),
      (126, 16, False), (127, 16, False), (130, 16, False), (132, 12, True), (133, 16, False),
      (134, 16, False), (135, 12, True), (136, 16, False), (137, 16, False), (139, 4, True),
      (140, 8, False), (141, 8, False), (142, 8, False), (143, 8, False), (144, 8, False),
      (145, 8, False), (146, 8, False), (147, 8, False), (148, 8, False), (150, 4, True),
      (151, 8, False), (152, 8, True), (153, 12, False), (154, 12, False), (156, 8, False),
      (157, 8, True), (158, 12, False), (159, 12, False), (161, 4, True), (162, 8, False),
      (163, 8, False), (164, 8, False), (165, 8, False), (167, 8, False), (168, 8, False),
      (169, 8, False), (170, 8, False), (171, 8, False), (172, 8, False), (173, 8, False),
      (175, 0, True), (176, 4, False), (177, 4, False), (179, 4, False), (181, 4, False),
      (184, 4, False), (186, 12, False), (187, 4, False), (190, 4, False), (191, 4, False),
      (192, 4, False), (195, 4, False), (196, 4, False), (198, 0, True), (199, 4, False)]"

text \<open>What running a file as a program gives: it is rejected, or its \<^verbatim>\<open>main()\<close> is executed.\<close>

datatype 'a run = IndentationError nat | Executed 'a

definition run_file :: "layout \<Rightarrow> 'a \<Rightarrow> 'a run" where
  "run_file l main_result =
     (case indent_error [0] False l of
        Some line \<Rightarrow> IndentationError line
      | None \<Rightarrow> Executed main_result)"

text \<open>
  Each file starts with its imports of the libraries in a \<^verbatim>\<open>try\<close> whose
  \<^verbatim>\<open>except ImportError\<close> prints two lines (the first differs between the files) and leaves
  with \<^verbatim>\<open>sys.exit(1)\<close>. \<open>imported\<close> is what the imports raised, if anything; any other
  exception of theirs is not caught.
\<close>

definition import_guard :: "string \<Rightarrow> exn option \<Rightarrow> ('m, 't, unit) comp" where
  "import_guard message imported =
     try_except (case imported of None \<Rightarrow> ret () | Some e \<Rightarrow> raise e)
       (\<lambda>e. if is_ImportError e
            then Some
              (andthen (emit (Print message))
                 (\<lambda>_.
               andthen (emit (PrintExn ''Import error: '' e))
                 (\<lambda>_.
               raise (SystemExit 1))))
            else None)"

section \<open>\<^verbatim>\<open>benchmark.py\<close>\<close>

definition test_prompts :: "string list" where
  "test_prompts =
     [''Hello, how are you?'',
      ''Explain the concept of machine learning in detail.'',
      ''Write a short story about a robot learning to paint.'',
      ''Describe the process of photosynthesis step by step with scientific accuracy.'',
      ''Generate a comprehensive analysis of the impact of artificial intelligence on modern society, including economic, social, and ethical considerations.'']"

text \<open>
  The loop \<^verbatim>\<open>for run in range(num_runs)\<close> on its two accumulators; \<open>k0\<close> is the number of
  \<^verbatim>\<open>generate\<close> calls made before the loop, so run \<open>run\<close> uses call slot \<open>k0 + run\<close>.
\<close>

fun run_loop ::
  "('m, 't) world \<Rightarrow> 'm \<Rightarrow> 't \<Rightarrow> string \<Rightarrow> nat \<Rightarrow> nat list \<Rightarrow> pyfloat list \<Rightarrow> nat list
     \<Rightarrow> ('m, 't, pyfloat list \<times> nat list) comp" where
  "run_loop W model tokenizer prompt k0 [] generation_times token_counts =
     ret (generation_times, token_counts)"
| "run_loop W model tokenizer prompt k0 (run # rest) generation_times token_counts =
     andthen (lib (Generate model tokenizer prompt 256 0.7 0.9 None) (generate_result W (k0 + run)))
       (\<lambda>response.
     let generation_time = elapsed W (k0 + run) in
     andthen (lib (Encode tokenizer response) (Inr (encode W tokenizer response)))
       (\<lambda>encoded.
     let response_tokens = length encoded in
     run_loop W model tokenizer prompt k0 rest
       (generation_times @ [generation_time]) (token_counts @ [response_tokens])))"

text \<open>The body of \<^verbatim>\<open>for i, prompt in enumerate(test_prompts, 1)\<close>.\<close>

definition benchmark_prompt ::
  "('m, 't) world \<Rightarrow> 'm \<Rightarrow> 't \<Rightarrow> int \<Rightarrow> nat \<Rightarrow> string \<Rightarrow> ('m, 't, bench_result) comp" where
  "benchmark_prompt W model tokenizer num_runs k0 prompt =
     andthen (lib (Encode tokenizer prompt) (Inr (encode W tokenizer prompt)))
       (\<lambda>encoded.
     let prompt_tokens = length encoded in
     andthen (run_loop W model tokenizer prompt k0 [0..<nat num_runs] [] [])
       (\<lambda>(generation_times, token_counts).
     andthen (lift (py_div (sum_list generation_times) (real (length generation_times))))
       (\<lambda>avg_generation_time.
     andthen (lift (py_div (real (sum_list token_counts)) (real (length token_counts))))
       (\<lambda>avg_tokens.
     andthen (lift (py_div avg_tokens avg_generation_time))
       (\<lambda>avg_tokens_per_second.
     ret \<lparr>res_prompt = prompt,
          res_input_tokens = prompt_tokens,
          res_avg_output_tokens = avg_tokens,
          res_avg_generation_time = avg_generation_time,
          res_avg_tokens_per_second = avg_tokens_per_second\<rparr>)))))"

fun prompt_loop ::
  "('m, 't) world \<Rightarrow> 'm \<Rightarrow> 't \<Rightarrow> int \<Rightarrow> nat \<Rightarrow> string list \<Rightarrow> bench_result list
     \<Rightarrow> ('m, 't, bench_result list) comp" where
  "prompt_loop W model tokenizer num_runs k0 [] results = ret results"
| "prompt_loop W model tokenizer num_runs k0 (prompt # rest) results =
     andthen (benchmark_prompt W model tokenizer num_runs k0 prompt)
       (\<lambda>result.
     prompt_loop W model tokenizer num_runs (k0 + nat num_runs) rest (results @ [result]))"

definition benchmark_model ::
  "('m, 't) world \<Rightarrow> string option \<Rightarrow> int \<Rightarrow> ('m, 't, bench_result list) comp" where
  "benchmark_model W model_path num_runs =
     andthen (lib (Load (or_default model_path)) (load_result W (or_default model_path)))
       (\<lambda>(model, tokenizer).
     andthen (prompt_loop W model tokenizer num_runs 0 test_prompts [])
       (\<lambda>results.
     let total_input_tokens = sum_list (map res_input_tokens results);
         total_output_tokens = sum_list (map res_avg_output_tokens results);
         total_time = sum_list (map res_avg_generation_time results) in
     andthen (lift (py_div total_output_tokens total_time))
       (\<lambda>overall_speed.
     ret results)))"

text \<open>
  The arguments as \<^verbatim>\<open>argparse\<close> hands them over; \<^verbatim>\<open>parse_args()\<close> itself may leave the
  program (\<^verbatim>\<open>SystemExit\<close> on a malformed flag or on \<^verbatim>\<open>--help\<close>), so \<open>main\<close> gets its
  outcome.
\<close>

datatype bench_args = BenchArgs "string option" int

fun benchmark_main :: "('m, 't) world \<Rightarrow> exn + bench_args \<Rightarrow> ('m, 't, unit) comp" where
  "benchmark_main W (Inl e) = lib ParseArgs (Inl e)"
| "benchmark_main W (Inr (BenchArgs args_model args_runs)) =
     andthen (emit ParseArgs)
       (\<lambda>_.
     try_except
       (andthen (benchmark_model W args_model args_runs)
          (\<lambda>results. emit (SaveResults results)))
       (\<lambda>e. if e = KeyboardInterrupt
            then Some (emit (Print ''\<newline>\<newline>Benchmark interrupted by user''))
            else if is_Exception e
            then Some (emit (PrintExn ''\<newline> Benchmark failed: '' e))
            else None))"

text \<open>The file as a program: the imports, then \<^verbatim>\<open>main()\<close> under the \<^verbatim>\<open>__main__\<close> guard.\<close>

definition benchmark_imports :: "exn option \<Rightarrow> ('m, 't, unit) comp" where
  "benchmark_imports imported = import_guard ''Error: Missing required dependencies'' imported"

definition benchmark_script ::
  "('m, 't) world \<Rightarrow> exn option \<Rightarrow> exn + bench_args \<Rightarrow> ('m, 't, unit) comp run" where
  "benchmark_script W imported parsed =
     run_file benchmark_layout
       (andthen (benchmark_imports imported) (\<lambda>_. benchmark_main W parsed))"

section \<open>\<^verbatim>\<open>run_llama.py\<close>\<close>

definition load_model :: "('m, 't) world \<Rightarrow> string option \<Rightarrow> ('m, 't, 'm \<times> 't) comp" where
  "load_model W model_path =
     (let model_path = (case model_path of None \<Rightarrow> default_model | Some p \<Rightarrow> p) in
      try_except
        (andthen (lib (Load model_path) (load_result W model_path))
           (\<lambda>(model, tokenizer). ret (model, tokenizer)))
        (\<lambda>e. if is_Exception e
             then Some
               (andthen (emit (PrintExn ''Error loading model: '' e))
                  (\<lambda>_.
                andthen (emit (Print ''Make sure you have sufficient memory (32GB+ recommended)''))
                  (\<lambda>_.
                raise (SystemExit 1))))
             else None))"

text \<open>The returned value is \<open>None\<close> for Python's \<^verbatim>\<open>None\<close>.\<close>

definition generate_text ::
  "('m, 't) world \<Rightarrow> 'm \<Rightarrow> 't \<Rightarrow> string \<Rightarrow> int \<Rightarrow> pyfloat \<Rightarrow> ('m, 't, string option) comp" where
  "generate_text W model tokenizer prompt max_tokens temperature =
     try_except
       (andthen (lib (Encode tokenizer prompt) (Inr (encode W tokenizer prompt)))
          (\<lambda>inputs.
        andthen (lib (Generate model tokenizer prompt max_tokens temperature 0.9 None)
                   (generate_result W 0))
          (\<lambda>response.
        let generation_time = elapsed W 0 in
        andthen (lib (Encode tokenizer response) (Inr (encode W tokenizer response)))
          (\<lambda>encoded.
        let tokens_generated = int (length encoded) - int (length inputs) in
        andthen (lift (py_div (real_of_int tokens_generated) generation_time))
          (\<lambda>speed.
        ret (Some response))))))
       (\<lambda>e. if is_Exception e
            then Some
              (andthen (emit (PrintExn ''Error during generation: '' e))
                 (\<lambda>_. ret None))
            else None)"

datatype run_args = RunArgs string int pyfloat "string option"

fun run_llama_main :: "('m, 't) world \<Rightarrow> exn + run_args \<Rightarrow> ('m, 't, unit) comp" where
  "run_llama_main W (Inl e) = lib ParseArgs (Inl e)"
| "run_llama_main W (Inr (RunArgs args_prompt args_max_tokens args_temperature args_model)) =
     andthen (emit ParseArgs)
       (\<lambda>_.
     andthen (load_model W args_model)
       (\<lambda>(model, tokenizer).
     andthen (generate_text W model tokenizer args_prompt args_max_tokens args_temperature)
       (\<lambda>response.
     ret ())))"

definition run_llama_imports :: "exn option \<Rightarrow> ('m, 't, unit) comp" where
  "run_llama_imports imported = import_guard ''Error: Missing required dependencies'' imported"

definition run_llama_script ::
  "('m, 't) world \<Rightarrow> exn option \<Rightarrow> exn + run_args \<Rightarrow> ('m, 't, unit) comp run" where
  "run_llama_script W imported parsed =
     run_file run_llama_layout
       (andthen (run_llama_imports imported) (\<lambda>_. run_llama_main W parsed))"

section \<open>\<^verbatim>\<open>chat_llama.py\<close>\<close>

record message =
  role :: string
  content :: string

record ('m, 't) LLaMAChat =
  max_tokens :: int
  temperature :: pyfloat
  conversation_history :: "message list"
  model :: 'm
  tokenizer :: 't

definition add_to_history :: "('m, 't) LLaMAChat \<Rightarrow> string \<Rightarrow> string \<Rightarrow> ('m, 't) LLaMAChat" where
  "add_to_history self r c =
     self\<lparr>conversation_history := conversation_history self @ [\<lparr>role = r, content = c\<rparr>]\<rparr>"

definition clear_history :: "('m, 't) LLaMAChat \<Rightarrow> ('m, 't) LLaMAChat" where
  "clear_history self = self\<lparr>conversation_history := []\<rparr>"

text \<open>The slice \<^verbatim>\<open>xs[-8:]\<close>: the whole list when it has at most 8 elements.\<close>

definition last8 :: "'a list \<Rightarrow> 'a list" where
  "last8 xs = drop (length xs - 8) xs"

text \<open>The \<^verbatim>\<open>for msg in recent_history\<close> loop of \<^verbatim>\<open>format_prompt\<close>, on its accumulator.\<close>

fun format_history :: "message list \<Rightarrow> string \<Rightarrow> string" where
  "format_history [] formatted_prompt = formatted_prompt"
| "format_history (msg # rest) formatted_prompt =
     (if role msg = ''user''
      then format_history rest
             (formatted_prompt @ ''<|im_start|>user\<newline>'' @ content msg @ ''<|im_end|>\<newline>'')
      else format_history rest
             (formatted_prompt @ ''<|im_start|>assistant\<newline>'' @ content msg @ ''<|im_end|>\<newline>''))"

definition format_prompt :: "message list \<Rightarrow> string \<Rightarrow> string" where
  "format_prompt history user_input =
     (if history = []
      then ''<|im_start|>user\<newline>'' @ user_input @ ''<|im_end|>\<newline><|im_start|>assistant\<newline>''
      else
        let recent_history = last8 history;
            formatted_prompt = format_history recent_history []
        in formatted_prompt @ ''<|im_start|>user\<newline>'' @ user_input
             @ ''<|im_end|>\<newline><|im_start|>assistant\<newline>'')"

text \<open>
  The chat template as the specification words it: one block per message, tagged with the
  speaker (anything but the user counts as the assistant, as in the loop above).
\<close>

definition template_block :: "message \<Rightarrow> string" where
  "template_block msg =
     ''<|im_start|>'' @ (if role msg = ''user'' then ''user'' else ''assistant'')
       @ ''\<newline>'' @ content msg @ ''<|im_end|>\<newline>''"

definition user_turn :: "string \<Rightarrow> string" where
  "user_turn user_input =
     ''<|im_start|>user\<newline>'' @ user_input @ ''<|im_end|>\<newline>'' @ ''<|im_start|>assistant\<newline>''"


definition apology :: string where
  "apology =
     ''I apologize, but I encountered an error while generating a response. Please try again.''"

text \<open>\<open>k\<close> is the call slot of the \<^verbatim>\<open>generate\<close> call this invocation makes.\<close>

definition generate_response ::
  "('m, 't) world \<Rightarrow> ('m, 't) LLaMAChat \<Rightarrow> nat \<Rightarrow> string \<Rightarrow> ('m, 't, string) comp" where
  "generate_response W self k user_input =
     try_except
       (let formatted_prompt = format_prompt (conversation_history self) user_input in
        andthen (lib (Generate (model self) (tokenizer self) formatted_prompt
                        (max_tokens self) (temperature self) 0.9
                        (Some [''<|im_end|>'', ''<|im_start|>'']))
                   (generate_result W k))
          (\<lambda>response.
        let response = strip response;
            response = (if startswith response ''assistant\<newline>''
                        then strip (drop 10 response) else response) in
        andthen (lib (Encode (tokenizer self) response)
                   (Inr (encode W (tokenizer self) response)))
          (\<lambda>encoded.
        ret response)))
       (\<lambda>e. if is_Exception e
            then Some
              (andthen (emit (PrintExn ''Error generating response: '' e))
                 (\<lambda>_. ret apology))
            else None)"

text \<open>
  The \<^verbatim>\<open>while True\<close> loop of \<^verbatim>\<open>chat\<close>. The list holds what the successive \<^verbatim>\<open>input()\<close>
  calls returned or raised, one entry per iteration; iteration \<open>k\<close> uses call slot \<open>k\<close>.
  Where the list ends the execution is cut off, so the result of a list is the state of
  the loop after these iterations. The result is the events, the exception that left
  \<^verbatim>\<open>chat\<close> (if any), and the object as it is then.
  \<^verbatim>\<open>show_help\<close>, \<^verbatim>\<open>show_history\<close> and \<^verbatim>\<open>show_stats\<close> only print.
\<close>

type_synonym ('m, 't) chat_result =
  "('m, 't) event list \<times> exn option \<times> ('m, 't) LLaMAChat"

definition after :: "('m, 't) event list \<Rightarrow> ('m, 't) chat_result \<Rightarrow> ('m, 't) chat_result" where
  "after tr r = (case r of (tr', x, self) \<Rightarrow> (tr @ tr', x, self))"

definition chat_handlers ::
  "('m, 't) event list \<Rightarrow> exn \<Rightarrow> ('m, 't) LLaMAChat \<Rightarrow> ('m, 't) chat_result" where
  "chat_handlers tr e self =
     (if e = KeyboardInterrupt
      then (tr @ [Print ''\<newline>\<newline>Chat interrupted. Goodbye!''], None, self)
      else if e = EOFError
      then (tr @ [Print ''\<newline>\<newline>End of input. Goodbye!''], None, self)
      else (tr, Some e, self))"

fun chat ::
  "('m, 't) world \<Rightarrow> nat \<Rightarrow> (exn + string) list \<Rightarrow> ('m, 't) LLaMAChat \<Rightarrow> ('m, 't) chat_result" where
  "chat W k [] self = ([], None, self)"
| "chat W k (Inl e # rest) self = chat_handlers [] e self"
| "chat W k (Inr line # rest) self =
     (let user_input = strip line in
      if user_input = [] then chat W (Suc k) rest self
      else if lower user_input \<in> set [''quit'', ''exit'', ''bye''] then ([], None, self)
      else if lower user_input = ''clear'' then chat W (Suc k) rest (clear_history self)
      else if lower user_input = ''help'' then chat W (Suc k) rest self
      else if lower user_input = ''history'' then chat W (Suc k) rest self
      else if lower user_input = ''stats'' then chat W (Suc k) rest self
      else
        (let self = add_to_history self ''user'' user_input in
         case generate_response W self k user_input of
           (tr, Inr response) \<Rightarrow>
             after tr (chat W (Suc k) rest (add_to_history self ''assistant'' response))
         | (tr, Inl e) \<Rightarrow> chat_handlers tr e self))"

definition LLaMAChat_init ::
  "('m, 't) world \<Rightarrow> string option \<Rightarrow> int \<Rightarrow> pyfloat \<Rightarrow> ('m, 't, ('m, 't) LLaMAChat) comp" where
  "LLaMAChat_init W model_path max_tokens_arg temperature_arg =
     andthen (lib (Load (or_default model_path)) (load_result W (or_default model_path)))
       (\<lambda>(m, t).
     ret \<lparr>max_tokens = max_tokens_arg, temperature = temperature_arg,
          conversation_history = [], model = m, tokenizer = t\<rparr>)"

datatype chat_args = ChatArgs "string option" int pyfloat

fun chat_main ::
  "('m, 't) world \<Rightarrow> exn + chat_args \<Rightarrow> (exn + string) list \<Rightarrow> ('m, 't, unit) comp" where
  "chat_main W (Inl e) inputs = lib ParseArgs (Inl e)"
| "chat_main W (Inr (ChatArgs args_model args_max_tokens args_temperature)) inputs =
     andthen (emit ParseArgs)
       (\<lambda>_.
     andthen (LLaMAChat_init W args_model args_max_tokens args_temperature)
       (\<lambda>chat_obj.
     case chat W 0 inputs chat_obj of
       (tr, None, self) \<Rightarrow> (tr, Inr ())
     | (tr, Some e, self) \<Rightarrow> (tr, Inl e)))"

definition chat_llama_imports :: "exn option \<Rightarrow> ('m, 't, unit) comp" where
  "chat_llama_imports imported =
     import_guard
       ''Error: Missing required dependencies. Please install with: pip install -r requirements.txt''
       imported"

definition chat_llama_script ::
  "('m, 't) world \<Rightarrow> exn option \<Rightarrow> exn + chat_args \<Rightarrow> (exn + string) list
     \<Rightarrow> ('m, 't, unit) comp run" where
  "chat_llama_script W imported parsed inputs =
     run_file chat_llama_layout
       (andthen (chat_llama_imports imported) (\<lambda>_. chat_main W parsed inputs))"

section \<open>Notions the properties are stated with\<close>

fun is_Generate :: "('m, 't) event \<Rightarrow> bool" where
  "is_Generate (Generate m t p mt temp tp stop) = True"
| "is_Generate ev = False"

fun is_Load :: "('m, 't) event \<Rightarrow> bool" where
  "is_Load (Load p) = True"
| "is_Load ev = False"

fun is_Encode :: "('m, 't) event \<Rightarrow> bool" where
  "is_Encode (Encode t s) = True"
| "is_Encode ev = False"

text \<open>The history's roles alternate, the next one expected being the user's or not.\<close>

fun alternating :: "bool \<Rightarrow> message list \<Rightarrow> bool" where
  "alternating user_next [] = True"
| "alternating user_next (msg # rest) =
     (role msg = (if user_next then ''user'' else ''assistant'') \<and> alternating (\<not> user_next) rest)"

text \<open>
  The order parse, load, generate: a trace is read from a phase; parsing is only possible
  at the start, loading only right after parsing (so at most once), generating only after
  loading.
\<close>

datatype phase = Start | Parsed | Loaded

fun in_order :: "phase \<Rightarrow> ('m, 't) event list \<Rightarrow> bool" where
  "in_order ph [] = True"
| "in_order ph (ParseArgs # tr) = (ph = Start \<and> in_order Parsed tr)"
| "in_order ph (Load p # tr) = (ph = Parsed \<and> in_order Loaded tr)"
| "in_order ph (Generate m t p mt temp tp stop # tr) = (ph = Loaded \<and> in_order Loaded tr)"
| "in_order ph (ev # tr) = in_order ph tr"

fun load_returned :: "('m, 't) world \<Rightarrow> ('m, 't) event \<Rightarrow> bool" where
  "load_returned W (Load p) = (case load_result W p of Inl e \<Rightarrow> False | Inr mt \<Rightarrow> True)"
| "load_returned W ev = False"

definition ordered_execution :: "('m, 't) world \<Rightarrow> bool \<Rightarrow> ('m, 't) event list \<Rightarrow> bool" where
  "ordered_execution W parsed tr \<longleftrightarrow>
     take 1 tr = [ParseArgs] \<and> in_order Start tr
     \<and> (parsed \<longrightarrow> length (filter is_Load tr) = 1)
     \<and> (list_ex is_Generate tr \<longrightarrow> list_ex (load_returned W) tr)"

text \<open>An event that passes a model or a tokenizer passes the loaded one.\<close>

fun uses_loaded :: "'m \<times> 't \<Rightarrow> ('m, 't) event \<Rightarrow> bool" where
  "uses_loaded (m, t) (Generate m' t' p mt temp tp stop) = (m' = m \<and> t' = t)"
| "uses_loaded (m, t) (Encode t' s) = (t' = t)"
| "uses_loaded (m, t) ev = True"

definition uses_none :: "('m, 't) event \<Rightarrow> bool" where
  "uses_none ev \<longleftrightarrow> \<not> is_Generate ev \<and> \<not> is_Encode ev"

definition from_single_load :: "('m, 't) world \<Rightarrow> ('m, 't) event list \<Rightarrow> bool" where
  "from_single_load W tr \<longleftrightarrow>
     (case filter is_Load tr of
        [] \<Rightarrow> list_all uses_none tr
      | [Load p] \<Rightarrow>
          (case load_result W p of
             Inl e \<Rightarrow> list_all uses_none tr
           | Inr mt \<Rightarrow> list_all (uses_loaded mt) tr)
      | _ \<Rightarrow> False)"

text \<open>Worlds to run the scripts in: one where every call returns, one where
  \<^verbatim>\<open>generate\<close> raises.\<close>

definition example_world :: "(nat, nat) world" where
  "example_world =
     \<lparr>load_result = (\<lambda>p. Inr (1, 2)), encode = (\<lambda>t s. map of_char s),
      generate_result = (\<lambda>k. Inr ''Hello!''), elapsed = (\<lambda>k. 2)\<rparr>"

definition failing_world :: "(nat, nat) world" where
  "failing_world =
     \<lparr>load_result = (\<lambda>p. if p = default_model then Inr (1, 2) else Inl (LibraryError ''not found'')),
      encode = (\<lambda>t s. map of_char s),
      generate_result = (\<lambda>k. Inl (LibraryError ''boom'')), elapsed = (\<lambda>k. 2)\<rparr>"

definition example_chat :: "(nat, nat) LLaMAChat" where
  "example_chat =
     \<lparr>max_tokens = 512, temperature = 0.7, conversation_history = [], model = 1, tokenizer = 2\<rparr>"

text \<open>The history a run of the chat loop ends with.\<close>

definition final_history :: "('m, 't) chat_result \<Rightarrow> message list" where
  "final_history r = conversation_history (snd (snd r))"

text \<open>The clean-up of a response in \<^verbatim>\<open>generate_response\<close>, and the reply a turn stores: the
  cleaned response, or the apology when the call raised an \<^verbatim>\<open>Exception\<close>.\<close>

definition cleaned :: "string \<Rightarrow> string" where
  "cleaned response =
     (let response = strip response in
      if startswith response ''assistant\<newline>'' then strip (drop 10 response) else response)"

fun caught :: "exn + string \<Rightarrow> bool" where
  "caught (Inl e) = is_Exception e"
| "caught (Inr response) = True"

fun assistant_reply :: "exn + string \<Rightarrow> string" where
  "assistant_reply (Inl e) = apology"
| "assistant_reply (Inr response) = cleaned response"

text \<open>
  What may follow the call of \<^verbatim>\<open>load\<close> in a trace: when the call returned, events that are
  neither a parse nor a load and pass the loaded model and tokenizer; when it raised, only
  printed lines.
\<close>

fun is_Print :: "('m, 't) event \<Rightarrow> bool" where
  "is_Print (Print s) = True"
| "is_Print (PrintExn s e) = True"
| "is_Print ev = False"

definition after_load :: "'m \<times> 't \<Rightarrow> ('m, 't) event \<Rightarrow> bool" where
  "after_load mt ev \<longleftrightarrow> ev \<noteq> ParseArgs \<and> \<not> is_Load ev \<and> uses_loaded mt ev"

definition after_load_ok :: "('m, 't) world \<Rightarrow> string \<Rightarrow> ('m, 't) event list \<Rightarrow> bool" where
  "after_load_ok W p rest \<longleftrightarrow>
     (case load_result W p of
        Inl e \<Rightarrow> list_all is_Print rest
      | Inr mt \<Rightarrow> list_all (after_load mt) rest)"

text \<open>What \<open>main\<close> of the benchmark adds after the events of \<open>benchmark_model\<close>.\<close>

definition bench_tail :: "exn + bench_result list \<Rightarrow> ('m, 't) event list" where
  "bench_tail r =
     (case r of
        Inr results \<Rightarrow> [SaveResults results]
      | Inl e \<Rightarrow>
          if e = KeyboardInterrupt then [Print ''\<newline>\<newline>Benchmark interrupted by user'']
          else if is_Exception e then [PrintExn ''\<newline> Benchmark failed: '' e]
          else [])"





text \<open>
  The order of the calls in a trace: parsing, then loading, then generating (so \<^verbatim>\<open>load\<close> is
  called at most once), and \<^verbatim>\<open>generate\<close> only when a call of \<^verbatim>\<open>load\<close> returned.
\<close>

definition calls_in_order :: "('m, 't) world \<Rightarrow> ('m, 't) event list \<Rightarrow> bool" where
  "calls_in_order W tr \<longleftrightarrow>
     in_order Start tr \<and> length (filter is_Load tr) \<le> 1
     \<and> (list_ex is_Generate tr \<longrightarrow> list_ex (load_returned W) tr)"

text \<open>
  The \<^verbatim>\<open>generate\<close> calls of a full sweep of the benchmark: \<open>num_runs\<close> calls in a row for
  each test prompt, in the order of the prompts.
\<close>

definition sweep :: "'m \<Rightarrow> 't \<Rightarrow> int \<Rightarrow> ('m, 't) event list" where
  "sweep m t num_runs =
     concat (map (\<lambda>prompt. replicate (nat num_runs) (Generate m t prompt 256 0.7 0.9 None))
               test_prompts)"

text \<open>A world whose clock does not advance over a generation.\<close>

definition stopped_clock_world :: "(nat, nat) world" where
  "stopped_clock_world =
     \<lparr>load_result = (\<lambda>p. Inr (1, 2)), encode = (\<lambda>t s. map of_char s),
      generate_result = (\<lambda>k. Inr ''Hello!''), elapsed = (\<lambda>k. 0)\<rparr>"

section \<open>Properties\<close>

subsection \<open>The prompt of the chat script\<close>

lemma format_history_blocks:
  "format_history msgs acc = acc @ concat (map template_block msgs)"
  by (induction msgs arbitrary: acc) (simp_all add: template_block_def)

lemma format_prompt_render:
  "format_prompt history user_input =
     concat (map template_block (last8 history)) @ user_turn user_input"
  by (simp add: format_prompt_def format_history_blocks user_turn_def last8_def)

lemma last8_idem: "last8 (last8 xs) = last8 xs"
  by (simp add: last8_def)

text \<open>
  C9. For every history and input, \<open>format_prompt\<close> is the template blocks of the last
  (at most 8) messages of the history, in their order, then the block of the new input and
  the assistant header. Dropping the older messages does not change it, and for the empty
  history it is exactly the input's block and the header.
\<close>

theorem format_prompt_last8:
  "format_prompt history user_input =
     concat (map template_block (last8 history)) @ user_turn user_input
   \<and> last8 history = drop (length history - 8) history
   \<and> length (last8 history) = min 8 (length history)
   \<and> format_prompt history user_input = format_prompt (last8 history) user_input
   \<and> format_prompt [] user_input =
       ''<|im_start|>user\<newline>'' @ user_input @ ''<|im_end|>\<newline><|im_start|>assistant\<newline>''"
proof -
  have "format_prompt (last8 history) user_input = format_prompt history user_input"
    by (simp only: format_prompt_render last8_idem)
  moreover have "length (last8 history) = min 8 (length history)"
    by (simp add: last8_def)
  moreover have "format_prompt [] user_input =
       ''<|im_start|>user\<newline>'' @ user_input @ ''<|im_end|>\<newline><|im_start|>assistant\<newline>''"
    by (simp add: format_prompt_def)
  ultimately show ?thesis
    by (simp add: format_prompt_render last8_def)
qed

subsection \<open>Running the chat script\<close>

lemma chat_llama_layout_error: "indent_error [0] False chat_llama_layout = Some 186"
  by (simp add: chat_llama_layout_def)

lemma benchmark_layout_ok: "indent_error [0] False benchmark_layout = None"
  by (simp add: benchmark_layout_def)

lemma run_llama_layout_ok: "indent_error [0] False run_llama_layout = None"
  by (simp add: run_llama_layout_def)

text \<open>
  C1. The chat script is not a runnable program: line 186 of \<^verbatim>\<open>chat_llama.py\<close> is indented
  under a line that opens no block, so the file is rejected before any statement of it is
  executed, whatever the arguments and the input; it reaches neither \<^verbatim>\<open>load\<close> nor
  \<^verbatim>\<open>generate\<close>.
\<close>

theorem chat_llama_script_rejected:
  "chat_llama_script W imported parsed inputs = IndentationError 186"
  by (simp add: chat_llama_script_def run_file_def chat_llama_layout_error)

subsection \<open>The conversation history\<close>

lemma alternating_append:
  "alternating b (xs @ ys) \<longleftrightarrow>
     alternating b xs \<and> alternating (if even (length xs) then b else \<not> b) ys"
  by (induction xs arbitrary: b) auto

lemma final_history_tuple [simp]: "final_history (tr, x, self) = conversation_history self"
  by (simp add: final_history_def)

lemma final_history_after [simp]: "final_history (after tr r) = final_history r"
  by (simp add: final_history_def after_def split: prod.splits)

lemma final_history_handlers [simp]:
  "final_history (chat_handlers tr e self) = conversation_history self"
  by (simp add: final_history_def chat_handlers_def)

lemma history_add [simp]:
  "conversation_history (add_to_history self r c) =
     conversation_history self @ [\<lparr>role = r, content = c\<rparr>]"
  by (simp add: add_to_history_def)

lemma history_clear [simp]: "conversation_history (clear_history self) = []"
  by (simp add: clear_history_def)

lemma chat_alternating:
  "alternating True (conversation_history self) \<Longrightarrow> even (length (conversation_history self))
   \<Longrightarrow> alternating True (final_history (chat W k inputs self))"
proof (induction inputs arbitrary: k self)
  case Nil
  then show ?case by simp
next
  case (Cons inp inputs)
  show ?case
  proof (cases inp)
    case (Inl e)
    with Cons.prems show ?thesis by simp
  next
    case (Inr line)
    note IH = Cons.IH
    have h0: "alternating True (conversation_history self)" "even (length (conversation_history self))"
      using Cons.prems by auto
    have clear: "alternating True (final_history (chat W (Suc k) inputs (clear_history self)))"
      by (rule IH) simp_all
    have same: "alternating True (final_history (chat W (Suc k) inputs self))"
      by (rule IH) (use h0 in simp_all)
    have user: "alternating True (conversation_history (add_to_history self ''user'' u))" for u
      using h0 by (simp add: alternating_append)
    have turn: "alternating True (final_history (chat W (Suc k) inputs
        (add_to_history (add_to_history self ''user'' u) ''assistant'' r)))" for u r
      by (rule IH) (use h0 in \<open>simp_all add: alternating_append\<close>)
    show ?thesis
      using Inr clear same user turn h0
      by (simp add: Let_def split: prod.splits sum.splits)
  qed
qed

lemma generate_response_returns:
  "generate_result W k = Inr s \<Longrightarrow>
   generate_response W self k u =
     ([Generate (model self) (tokenizer self) (format_prompt (conversation_history self) u)
         (max_tokens self) (temperature self) 0.9 (Some [''<|im_end|>'', ''<|im_start|>'']),
       Encode (tokenizer self) (cleaned s)], Inr (cleaned s))"
  by (simp add: generate_response_def try_except_def andthen_def lib_def ret_def cleaned_def Let_def)

lemma generate_response_raises:
  "generate_result W k = Inl e \<Longrightarrow>
   generate_response W self k u =
     (if is_Exception e
      then ([Generate (model self) (tokenizer self) (format_prompt (conversation_history self) u)
               (max_tokens self) (temperature self) 0.9 (Some [''<|im_end|>'', ''<|im_start|>'']),
             PrintExn ''Error generating response: '' e], Inr apology)
      else ([Generate (model self) (tokenizer self) (format_prompt (conversation_history self) u)
               (max_tokens self) (temperature self) 0.9 (Some [''<|im_end|>'', ''<|im_start|>''])],
            Inl e))"
  by (simp add: generate_response_def try_except_def andthen_def lib_def ret_def emit_def Let_def)

lemma generate_response_caught:
  "caught (generate_result W k) \<Longrightarrow>
   \<exists>tr. generate_response W self k u = (tr, Inr (assistant_reply (generate_result W k)))"
  by (cases "generate_result W k")
     (simp_all add: generate_response_returns generate_response_raises)

lemma lower_Nil [simp]: "lower [] = []"
  by (simp add: lower_def)

lemma lower_eq_Nil [simp]: "lower s = [] \<longleftrightarrow> s = []"
  by (simp add: lower_def)

lemma alternating_roles:
  "alternating b h \<Longrightarrow> list_all (\<lambda>msg. role msg = ''user'' \<or> role msg = ''assistant'') h"
  by (induction h arbitrary: b) (auto split: if_splits)

lemma chat_skip:
  "strip line = [] \<or> lower (strip line) \<in> set [''help'', ''history'', ''stats'']
   \<Longrightarrow> chat W k (Inr line # rest) self = chat W (Suc k) rest self"
  by (auto simp add: Let_def)

lemma chat_quit:
  "lower (strip line) \<in> set [''quit'', ''exit'', ''bye'']
   \<Longrightarrow> chat W k (Inr line # rest) self = ([], None, self)"
  by (auto simp add: Let_def)

lemma chat_clear:
  "lower (strip line) = ''clear''
   \<Longrightarrow> chat W k (Inr line # rest) self =
        chat W (Suc k) rest (self\<lparr>conversation_history := []\<rparr>)"
  by (auto simp add: Let_def clear_history_def)

lemma chat_turn:
  assumes "strip line \<noteq> []"
    and "lower (strip line) \<notin> set [''quit'', ''exit'', ''bye'', ''clear'', ''help'', ''history'', ''stats'']"
    and "caught (generate_result W k)"
  shows "\<exists>tr. chat W k (Inr line # rest) self =
           after tr (chat W (Suc k) rest
             (self\<lparr>conversation_history := conversation_history self @
                [\<lparr>role = ''user'', content = strip line\<rparr>,
                 \<lparr>role = ''assistant'', content = assistant_reply (generate_result W k)\<rparr>]\<rparr>))"
proof -
  obtain tr where "generate_response W (add_to_history self ''user'' (strip line)) k (strip line)
      = (tr, Inr (assistant_reply (generate_result W k)))"
    using generate_response_caught[OF assms(3)] by blast
  then show ?thesis
    using assms(1,2) by (auto simp add: Let_def add_to_history_def)
qed

text \<open>
  C8. From a history that alternates from the user and has even length (the empty history
  of \<^verbatim>\<open>__init__\<close> is one), every run of the chat loop ends with a history whose roles
  alternate starting with the user, each being the user or the assistant. An empty input
  and the commands help, history and stats go to the next iteration with the object
  unchanged; quit, exit and bye end the loop with the object unchanged; clear goes on with
  the empty history; any other input, when the generation returns or raises an
  \<^verbatim>\<open>Exception\<close>, goes on with exactly two more messages: the user's stripped input, then
  the assistant's reply (the apology if the generation raised).
\<close>

theorem chat_history_invariant:
  "(alternating True (conversation_history self) \<and> even (length (conversation_history self))
      \<longrightarrow> alternating True (final_history (chat W k inputs self))
          \<and> list_all (\<lambda>msg. role msg = ''user'' \<or> role msg = ''assistant'')
                (final_history (chat W k inputs self)))
   \<and> (strip line = [] \<or> lower (strip line) \<in> set [''help'', ''history'', ''stats'']
      \<longrightarrow> chat W k (Inr line # rest) self = chat W (Suc k) rest self)
   \<and> (lower (strip line) \<in> set [''quit'', ''exit'', ''bye'']
      \<longrightarrow> chat W k (Inr line # rest) self = ([], None, self))
   \<and> (lower (strip line) = ''clear''
      \<longrightarrow> chat W k (Inr line # rest) self =
            chat W (Suc k) rest (self\<lparr>conversation_history := []\<rparr>))
   \<and> (strip line \<noteq> []
       \<and> lower (strip line) \<notin>
            set [''quit'', ''exit'', ''bye'', ''clear'', ''help'', ''history'', ''stats'']
       \<and> caught (generate_result W k)
      \<longrightarrow> (\<exists>tr. chat W k (Inr line # rest) self =
             after tr (chat W (Suc k) rest
               (self\<lparr>conversation_history := conversation_history self @
                  [\<lparr>role = ''user'', content = strip line\<rparr>,
                   \<lparr>role = ''assistant'',
                    content = assistant_reply (generate_result W k)\<rparr>]\<rparr>))))"
  using chat_alternating[of self W k inputs] alternating_roles[of True "final_history (chat W k inputs self)"]
    chat_skip[of line W k rest self] chat_quit[of line W k rest self] chat_clear[of line W k rest self]
    chat_turn[of line W k rest self]
  by blast

theorem chat_history_invariant_witness:
  "alternating True
     (final_history (chat example_world 0 [Inr ''  Hi '', Inr ''HELP'', Inr ''yo'', Inl EOFError] example_chat))
   \<and> chat example_world 0 [Inr ''HELP'', Inr ''yo''] example_chat = chat example_world (Suc 0) [Inr ''yo''] example_chat
   \<and> chat example_world 0 [Inr '' Quit'', Inr ''yo''] example_chat = ([], None, example_chat)
   \<and> chat example_world 0 [Inr ''Clear'', Inr ''yo''] example_chat =
        chat example_world (Suc 0) [Inr ''yo''] (example_chat\<lparr>conversation_history := []\<rparr>)
   \<and> (\<exists>tr. chat failing_world 0 [Inr ''  Hi ''] example_chat =
          after tr (chat failing_world (Suc 0) []
            (example_chat\<lparr>conversation_history :=
               [\<lparr>role = ''user'', content = ''Hi''\<rparr>, \<lparr>role = ''assistant'', content = apology\<rparr>]\<rparr>)))"
proof -
  have h0: "alternating True (conversation_history example_chat) \<and> even (length (conversation_history example_chat))"
    by (simp add: example_chat_def)
  have h1: "strip ''HELP'' = [] \<or> lower (strip ''HELP'') \<in> set [''help'', ''history'', ''stats'']"
    by code_simp
  have h2: "lower (strip '' Quit'') \<in> set [''quit'', ''exit'', ''bye'']"
    by code_simp
  have h3: "lower (strip ''Clear'') = ''clear''"
    by code_simp
  have s4: "strip ''  Hi '' = ''Hi''"
    by code_simp
  have h4: "strip ''  Hi '' \<noteq> []
      \<and> lower (strip ''  Hi '') \<notin> set [''quit'', ''exit'', ''bye'', ''clear'', ''help'', ''history'', ''stats'']
      \<and> caught (generate_result failing_world 0)"
    unfolding s4 by (simp add: failing_world_def, code_simp)
  note t = chat_history_invariant
  from t[where self=example_chat and W=example_world and k=0 and inputs="[Inr ''  Hi '', Inr ''HELP'', Inr ''yo'', Inl EOFError]"] h0
  have c0: "alternating True
     (final_history (chat example_world 0 [Inr ''  Hi '', Inr ''HELP'', Inr ''yo'', Inl EOFError] example_chat))"
    by blast
  from t[where self=example_chat and W=example_world and k=0 and line="''HELP''" and rest="[Inr ''yo'']"] h1
  have c1: "chat example_world 0 [Inr ''HELP'', Inr ''yo''] example_chat = chat example_world (Suc 0) [Inr ''yo''] example_chat"
    by blast
  from t[where self=example_chat and W=example_world and k=0 and line="'' Quit''" and rest="[Inr ''yo'']"] h2
  have c2: "chat example_world 0 [Inr '' Quit'', Inr ''yo''] example_chat = ([], None, example_chat)"
    by blast
  from t[where self=example_chat and W=example_world and k=0 and line="''Clear''" and rest="[Inr ''yo'']"] h3
  have c3: "chat example_world 0 [Inr ''Clear'', Inr ''yo''] example_chat =
        chat example_world (Suc 0) [Inr ''yo''] (example_chat\<lparr>conversation_history := []\<rparr>)"
    by blast
  from t[where self=example_chat and W=failing_world and k=0 and line="''  Hi ''" and rest="[]"] h4
  have "\<exists>tr. chat failing_world 0 [Inr ''  Hi ''] example_chat =
          after tr (chat failing_world (Suc 0) []
            (example_chat\<lparr>conversation_history := conversation_history example_chat @
               [\<lparr>role = ''user'', content = strip ''  Hi ''\<rparr>,
                \<lparr>role = ''assistant'', content = assistant_reply (generate_result failing_world 0)\<rparr>]\<rparr>))"
    by blast
  then have c4: "\<exists>tr. chat failing_world 0 [Inr ''  Hi ''] example_chat =
          after tr (chat failing_world (Suc 0) []
            (example_chat\<lparr>conversation_history :=
               [\<lparr>role = ''user'', content = ''Hi''\<rparr>, \<lparr>role = ''assistant'', content = apology\<rparr>]\<rparr>))"
    unfolding s4 by (simp only: failing_world_def example_chat_def world.simps LLaMAChat.simps assistant_reply.simps append_Nil)
  from c0 c1 c2 c3 c4 show ?thesis by blast
qed

subsection \<open>Sequencing\<close>

lemma andthen_lib:
  "andthen (lib ev r) f =
     (case r of Inl e \<Rightarrow> ([ev], Inl e) | Inr x \<Rightarrow> (ev # fst (f x), snd (f x)))"
  by (simp add: andthen_def lib_def split: sum.splits prod.splits)

lemma andthen_lift:
  "andthen (lift r) f = (case r of Inl e \<Rightarrow> ([], Inl e) | Inr x \<Rightarrow> f x)"
  by (simp add: andthen_def lift_def split: sum.splits prod.splits)

lemma andthen_emit: "andthen (emit ev) f = (ev # fst (f ()), snd (f ()))"
  by (simp add: andthen_def emit_def split: prod.splits)

lemma fst_andthen:
  "fst (andthen c f) = fst c @ (case snd c of Inl e \<Rightarrow> [] | Inr x \<Rightarrow> fst (f x))"
  by (cases c) (simp add: andthen_def split: sum.splits prod.splits)

lemma snd_andthen:
  "snd (andthen c f) = (case snd c of Inl e \<Rightarrow> Inl e | Inr x \<Rightarrow> snd (f x))"
  by (cases c) (simp add: andthen_def split: sum.splits prod.splits)

lemma snd_andthen_Inr:
  "snd (andthen c f) = Inr y \<longleftrightarrow> (\<exists>x. snd c = Inr x \<and> snd (f x) = Inr y)"
  by (simp add: snd_andthen split: sum.splits)

subsection \<open>The benchmark\<close>

lemma run_loop_returned:
  "snd (run_loop W m t p k0 runs gts tcs) = Inr (gts', tcs') \<Longrightarrow>
     filter is_Generate (fst (run_loop W m t p k0 runs gts tcs)) =
       replicate (length runs) (Generate m t p 256 0.7 0.9 None)
     \<and> gts' = gts @ map (\<lambda>run. elapsed W (k0 + run)) runs
     \<and> length tcs' = length tcs + length runs"
proof (induction runs arbitrary: gts tcs)
  case Nil
  then show ?case by (simp add: ret_def)
next
  case (Cons run runs)
  from Cons.prems obtain response where r: "generate_result W (k0 + run) = Inr response"
    by (cases "generate_result W (k0 + run)") (simp_all add: andthen_lib)
  let ?rest = "run_loop W m t p k0 runs (gts @ [elapsed W (k0 + run)])
                 (tcs @ [length (encode W t response)])"
  have eq: "run_loop W m t p k0 (run # runs) gts tcs =
      (Generate m t p 256 0.7 0.9 None # Encode t response # fst ?rest, snd ?rest)"
    by (simp add: andthen_lib r Let_def)
  from Cons.prems[unfolded eq] have "snd ?rest = Inr (gts', tcs')" by simp
  from Cons.IH[OF this] show ?case unfolding eq by simp
qed

lemma run_loop_total:
  "\<forall>run \<in> set runs. \<exists>s. generate_result W (k0 + run) = Inr s \<Longrightarrow>
     \<exists>tcs'. snd (run_loop W m t p k0 runs gts tcs) =
        Inr (gts @ map (\<lambda>run. elapsed W (k0 + run)) runs, tcs')"
proof (induction runs arbitrary: gts tcs)
  case Nil
  then show ?case by (simp add: ret_def)
next
  case (Cons run runs)
  then obtain response where r: "generate_result W (k0 + run) = Inr response" by auto
  from Cons.prems have "\<forall>run \<in> set runs. \<exists>s. generate_result W (k0 + run) = Inr s" by simp
  from Cons.IH[OF this, of "gts @ [elapsed W (k0 + run)]" "tcs @ [length (encode W t response)]"]
  show ?case by (simp add: andthen_lib r Let_def)
qed

lemma benchmark_prompt_returned:
  assumes "snd (benchmark_prompt W m t n k0 p) = Inr result"
  shows "filter is_Generate (fst (benchmark_prompt W m t n k0 p)) =
           replicate (nat n) (Generate m t p 256 0.7 0.9 None)"
proof -
  let ?loop = "run_loop W m t p k0 [0..<nat n] [] []"
  from assms obtain gts tcs where l: "snd ?loop = Inr (gts, tcs)"
    by (cases "snd ?loop") (auto simp add: benchmark_prompt_def andthen_lib snd_andthen Let_def)
  from run_loop_returned[OF l]
  have g: "filter is_Generate (fst ?loop) = replicate (nat n) (Generate m t p 256 0.7 0.9 None)"
    by simp
  show ?thesis
    using l g
    by (simp add: benchmark_prompt_def andthen_lib fst_andthen Let_def andthen_lift ret_def
      split: sum.splits)
qed

lemma prompt_loop_returned:
  "snd (prompt_loop W m t n k0 ps results) = Inr rs \<Longrightarrow>
     filter is_Generate (fst (prompt_loop W m t n k0 ps results)) =
       concat (map (\<lambda>p. replicate (nat n) (Generate m t p 256 0.7 0.9 None)) ps)"
proof (induction ps arbitrary: k0 results)
  case Nil
  then show ?case by (simp add: ret_def)
next
  case (Cons p ps)
  from Cons.prems obtain r where
    r: "snd (benchmark_prompt W m t n k0 p) = Inr r"
    and rest: "snd (prompt_loop W m t n (k0 + nat n) ps (results @ [r])) = Inr rs"
    by (auto simp add: snd_andthen_Inr)
  from benchmark_prompt_returned[OF r] Cons.IH[OF rest] r
  show ?case by (simp add: fst_andthen)
qed

lemma sum_list_positive:
  "xs \<noteq> [] \<Longrightarrow> \<forall>x \<in> set xs. (0::real) < x \<Longrightarrow> 0 < sum_list xs"
  by (induction xs) (auto intro: add_pos_nonneg sum_list_nonneg less_imp_le)

lemma benchmark_prompt_result:
  assumes "snd (run_loop W m t p k0 [0..<nat n] [] []) = Inr (gts, tcs)"
  shows "snd (benchmark_prompt W m t n k0 p) =
     (case py_div (sum_list gts) (real (length gts)) of
        Inl e \<Rightarrow> Inl e
      | Inr avg_generation_time \<Rightarrow>
          (case py_div (real (sum_list tcs)) (real (length tcs)) of
             Inl e \<Rightarrow> Inl e
           | Inr avg_tokens \<Rightarrow>
               (case py_div avg_tokens avg_generation_time of
                  Inl e \<Rightarrow> Inl e
                | Inr avg_tokens_per_second \<Rightarrow>
                    Inr \<lparr>res_prompt = p,
                         res_input_tokens = length (encode W t p),
                         res_avg_output_tokens = avg_tokens,
                         res_avg_generation_time = avg_generation_time,
                         res_avg_tokens_per_second = avg_tokens_per_second\<rparr>)))"
  using assms
  by (simp add: benchmark_prompt_def andthen_lib snd_andthen Let_def andthen_lift ret_def lift_def
      split: sum.splits)

subsection \<open>The shape of the traces\<close>

lemma fst_try_except:
  "fst (try_except c h) =
     fst c @ (case snd c of
                Inl e \<Rightarrow> (case h e of None \<Rightarrow> [] | Some k \<Rightarrow> fst k)
              | Inr x \<Rightarrow> [])"
  by (cases c) (simp add: try_except_def split: sum.splits option.splits prod.splits)

lemma after_load_simps [simp]:
  "after_load (m, t) (Generate m' t' p mt temp tp stop) \<longleftrightarrow> m' = m \<and> t' = t"
  "after_load (m, t) (Encode t' s) \<longleftrightarrow> t' = t"
  "after_load (m, t) (Print s)"
  "after_load (m, t) (PrintExn s e)"
  "after_load (m, t) (SaveResults rs)"
  "\<not> after_load (m, t) ParseArgs"
  "\<not> after_load (m, t) (Load p)"
  by (auto simp add: after_load_def)

lemma run_loop_events:
  assumes "P (Generate m t p 256 0.7 0.9 None)" and "\<And>s. P (Encode t s)"
  shows "list_all P (fst (run_loop W m t p k0 runs gts tcs))"
  using assms
  by (induction runs arbitrary: gts tcs)
     (simp_all add: ret_def andthen_lib Let_def split: sum.splits)

lemma fst_benchmark_prompt:
  "fst (benchmark_prompt W m t n k0 p) =
     Encode t p # fst (run_loop W m t p k0 [0..<nat n] [] [])"
  by (simp add: benchmark_prompt_def andthen_lib fst_andthen andthen_lift ret_def lift_def Let_def
      split: sum.splits prod.splits)

lemma prompt_loop_events:
  assumes "\<And>p. p \<in> set ps \<Longrightarrow> P (Generate m t p 256 0.7 0.9 None)" and "\<And>s. P (Encode t s)"
  shows "list_all P (fst (prompt_loop W m t n k0 ps results))"
  using assms
proof (induction ps arbitrary: k0 results)
  case Nil
  then show ?case by (simp add: ret_def)
next
  case (Cons p ps)
  have 1: "list_all P (fst (benchmark_prompt W m t n k0 p))"
    unfolding fst_benchmark_prompt
    using run_loop_events[of P m t p W k0 "[0..<nat n]" "[]" "[]"] Cons.prems by simp
  have 2: "list_all P (fst (prompt_loop W m t n (k0 + nat n) ps (results @ [r])))" for r
    by (rule Cons.IH) (use Cons.prems in simp_all)
  from 1 2 show ?case by (simp add: fst_andthen split: sum.splits)
qed

lemma prompt_loop_after_load:
  "list_all (after_load (m, t)) (fst (prompt_loop W m t n k0 ps results))"
  by (rule prompt_loop_events) simp_all

lemma fst_benchmark_model:
  "fst (benchmark_model W model_path n) =
     Load (or_default model_path) #
       (case load_result W (or_default model_path) of
          Inl e \<Rightarrow> []
        | Inr (m, t) \<Rightarrow> fst (prompt_loop W m t n 0 test_prompts []))"
  by (simp add: benchmark_model_def andthen_lib fst_andthen andthen_lift ret_def lift_def Let_def
      split: sum.splits prod.splits)

lemma fst_benchmark_main:
  "fst (benchmark_main W (Inr (BenchArgs model_path n))) =
     ParseArgs # fst (benchmark_model W model_path n)
       @ bench_tail (snd (benchmark_model W model_path n))"
  by (cases "benchmark_model W model_path n")
     (simp add: andthen_emit try_except_def andthen_def emit_def bench_tail_def
        split: sum.splits)

lemma bench_tail_after_load: "list_all (after_load (m, t)) (bench_tail r)"
  by (simp add: bench_tail_def split: sum.splits)

lemma bench_tail_prints: "list_all is_Print (bench_tail (Inl e))"
  by (simp add: bench_tail_def)

lemma benchmark_main_shape:
  "\<exists>rest. fst (benchmark_main W (Inr (BenchArgs model_path n))) =
      ParseArgs # Load (or_default model_path) # rest
    \<and> after_load_ok W (or_default model_path) rest"
proof (cases "load_result W (or_default model_path)")
  case (Inl e)
  then have m: "benchmark_model W model_path n = ([Load (or_default model_path)], Inl e)"
    by (simp add: benchmark_model_def andthen_lib)
  show ?thesis
    using Inl bench_tail_prints[of e]
    unfolding fst_benchmark_main m by (simp add: after_load_ok_def)
next
  case (Inr mt)
  obtain m t where mt: "mt = (m, t)" by (cases mt)
  show ?thesis
    using Inr mt prompt_loop_after_load[of m t W n 0 test_prompts "[]"]
      bench_tail_after_load[of m t "snd (benchmark_model W model_path n)"]
    unfolding fst_benchmark_main fst_benchmark_model by (simp add: after_load_ok_def)
qed

subsection \<open>The calls and the divisions of the benchmark\<close>

lemma run_loop_calls:
  "\<exists>j \<le> length runs. filter is_Generate (fst (run_loop W m t p k0 runs gts tcs)) =
      replicate j (Generate m t p 256 0.7 0.9 None)"
proof (induction runs arbitrary: gts tcs)
  case Nil
  then show ?case by (simp add: ret_def)
next
  case (Cons run runs)
  show ?case
  proof (cases "generate_result W (k0 + run)")
    case (Inl e)
    have "filter is_Generate (fst (run_loop W m t p k0 (run # runs) gts tcs)) =
        replicate (Suc 0) (Generate m t p 256 0.7 0.9 None)"
      using Inl by (simp add: andthen_lib)
    then show ?thesis by (intro exI[of _ "Suc 0"]) simp
  next
    case (Inr response)
    from Cons.IH[of "gts @ [elapsed W (k0 + run)]" "tcs @ [length (encode W t response)]"]
    obtain j where j: "j \<le> length runs"
      "filter is_Generate (fst (run_loop W m t p k0 runs (gts @ [elapsed W (k0 + run)])
          (tcs @ [length (encode W t response)]))) = replicate j (Generate m t p 256 0.7 0.9 None)"
      by blast
    have "filter is_Generate (fst (run_loop W m t p k0 (run # runs) gts tcs)) =
        replicate (Suc j) (Generate m t p 256 0.7 0.9 None)"
      using Inr j(2) by (simp add: andthen_lib Let_def)
    with j(1) show ?thesis by (intro exI[of _ "Suc j"]) simp
  qed
qed

lemma prefix_replicate:
  "j \<le> n \<Longrightarrow> prefix (replicate j x) (replicate n x @ ys)"
proof -
  assume "j \<le> n"
  then have "replicate n x = replicate j x @ replicate (n - j) x"
    by (simp add: replicate_add[symmetric])
  then show ?thesis by (simp add: prefix_def)
qed

lemma prompt_loop_calls:
  "prefix (filter is_Generate (fst (prompt_loop W m t n k0 ps results)))
     (concat (map (\<lambda>p. replicate (nat n) (Generate m t p 256 0.7 0.9 None)) ps))"
proof (induction ps arbitrary: k0 results)
  case Nil
  then show ?case by (simp add: ret_def)
next
  case (Cons p ps)
  let ?G = "Generate m t p 256 0.7 0.9 None"
  let ?rest = "concat (map (\<lambda>p. replicate (nat n) (Generate m t p 256 0.7 0.9 None)) ps)"
  show ?case
  proof (cases "snd (benchmark_prompt W m t n k0 p)")
    case (Inl e)
    from run_loop_calls[of "[0..<nat n]" W m t p k0 "[]" "[]"]
    obtain j where j: "j \<le> nat n"
      "filter is_Generate (fst (run_loop W m t p k0 [0..<nat n] [] [])) = replicate j ?G"
      by auto
    have "filter is_Generate (fst (prompt_loop W m t n k0 (p # ps) results)) = replicate j ?G"
      using Inl j(2) by (simp add: fst_andthen fst_benchmark_prompt)
    with prefix_replicate[OF j(1), of ?G ?rest] show ?thesis by simp
  next
    case (Inr r)
    from benchmark_prompt_returned[OF Inr]
    have "filter is_Generate (fst (prompt_loop W m t n k0 (p # ps) results)) =
        replicate (nat n) ?G @
          filter is_Generate (fst (prompt_loop W m t n (k0 + nat n) ps (results @ [r])))"
      using Inr by (simp add: fst_andthen)
    with Cons.IH[of "k0 + nat n" "results @ [r]"] show ?thesis by simp
  qed
qed

lemma benchmark_model_calls:
  "filter is_Generate (fst (benchmark_model W model_path n)) =
     (case load_result W (or_default model_path) of
        Inl e \<Rightarrow> []
      | Inr (m, t) \<Rightarrow> filter is_Generate (fst (prompt_loop W m t n 0 test_prompts [])))"
  unfolding fst_benchmark_model by (simp split: sum.splits prod.splits)

lemma benchmark_model_returned:
  assumes "snd (benchmark_model W model_path n) = Inr results"
  shows "\<exists>m t. load_result W (or_default model_path) = Inr (m, t)
           \<and> filter is_Generate (fst (benchmark_model W model_path n)) = sweep m t n"
proof -
  from assms obtain m t where l: "load_result W (or_default model_path) = Inr (m, t)"
    by (cases "load_result W (or_default model_path)")
       (auto simp add: benchmark_model_def andthen_lib)
  let ?loop = "prompt_loop W m t n 0 test_prompts []"
  from assms l obtain rs where rs: "snd ?loop = Inr rs"
    by (cases "snd ?loop") (auto simp add: benchmark_model_def andthen_lib snd_andthen)
  from prompt_loop_returned[OF rs] l show ?thesis
    by (simp add: benchmark_model_calls sweep_def)
qed

lemma benchmark_prompt_total:
  assumes "1 \<le> n" and "\<forall>run < nat n. \<exists>s. generate_result W (k0 + run) = Inr s"
    and "\<forall>run < nat n. 0 < elapsed W (k0 + run)"
  shows "\<exists>r. snd (benchmark_prompt W m t n k0 p) = Inr r \<and> 0 < res_avg_generation_time r"
proof -
  let ?gts = "map (\<lambda>run. elapsed W (k0 + run)) [0..<nat n]"
  from run_loop_total[of "[0..<nat n]" W k0 m t p "[]" "[]"] assms(2)
  obtain tcs where l: "snd (run_loop W m t p k0 [0..<nat n] [] []) = Inr (?gts, tcs)"
    by auto
  from run_loop_returned[OF l] have len: "length tcs = nat n" by simp
  have n: "0 < nat n" using assms(1) by simp
  then have ne: "?gts \<noteq> []" by simp
  have pos: "0 < sum_list ?gts"
    by (rule sum_list_positive[OF ne]) (use assms(3) in auto)
  have avg: "0 < sum_list ?gts / real (nat n)"
    using pos n by simp
  show ?thesis
    using benchmark_prompt_result[OF l] len n pos avg
    by (simp add: py_div_def)
qed

lemma prompt_loop_total:
  assumes "1 \<le> n"
  shows "\<forall>k < length ps * nat n. \<exists>s. generate_result W (k0 + k) = Inr s \<Longrightarrow>
     \<forall>k < length ps * nat n. 0 < elapsed W (k0 + k) \<Longrightarrow>
     \<exists>rs. snd (prompt_loop W m t n k0 ps results) = Inr (results @ rs)
            \<and> length rs = length ps \<and> (\<forall>r \<in> set rs. 0 < res_avg_generation_time r)"
proof (induction ps arbitrary: k0 results)
  case Nil
  then show ?case by (simp add: ret_def)
next
  case (Cons p ps)
  have g1: "\<forall>run < nat n. \<exists>s. generate_result W (k0 + run) = Inr s"
    using Cons.prems(1) by (simp add: trans_less_add1)
  have e1: "\<forall>run < nat n. 0 < elapsed W (k0 + run)"
    using Cons.prems(2) by (simp add: trans_less_add1)
  have g2: "\<forall>k < length ps * nat n. \<exists>s. generate_result W (k0 + nat n + k) = Inr s"
  proof (intro allI impI)
    fix k assume "k < length ps * nat n"
    then have "nat n + k < length (p # ps) * nat n" by simp
    with Cons.prems(1) have "\<exists>s. generate_result W (k0 + (nat n + k)) = Inr s" by blast
    then show "\<exists>s. generate_result W (k0 + nat n + k) = Inr s" by (simp add: add.assoc)
  qed
  have e2: "\<forall>k < length ps * nat n. 0 < elapsed W (k0 + nat n + k)"
  proof (intro allI impI)
    fix k assume "k < length ps * nat n"
    then have "nat n + k < length (p # ps) * nat n" by simp
    with Cons.prems(2) have "0 < elapsed W (k0 + (nat n + k))" by blast
    then show "0 < elapsed W (k0 + nat n + k)" by (simp add: add.assoc)
  qed
  from benchmark_prompt_total[OF assms g1 e1, of m t p]
  obtain r where r: "snd (benchmark_prompt W m t n k0 p) = Inr r" "0 < res_avg_generation_time r"
    by blast
  from Cons.IH[OF g2 e2, of "results @ [r]"]
  obtain rs where rs: "snd (prompt_loop W m t n (k0 + nat n) ps (results @ [r])) = Inr ((results @ [r]) @ rs)"
    "length rs = length ps" "\<forall>r \<in> set rs. 0 < res_avg_generation_time r"
    by blast
  have "snd (prompt_loop W m t n k0 (p # ps) results) = Inr (results @ (r # rs))"
    using r(1) rs(1) by (simp add: snd_andthen)
  moreover have "length (r # rs) = length (p # ps)" using rs(2) by simp
  moreover have "\<forall>x \<in> set (r # rs). 0 < res_avg_generation_time x" using r(2) rs(3) by simp
  ultimately show ?case by blast
qed

lemma benchmark_model_total:
  assumes "1 \<le> n" and "load_result W (or_default model_path) = Inr (m, t)"
    and "\<forall>k < 5 * nat n. \<exists>s. generate_result W k = Inr s"
    and "\<forall>k < 5 * nat n. 0 < elapsed W k"
  shows "\<exists>results. snd (benchmark_model W model_path n) = Inr results \<and> length results = 5"
proof -
  have five0: "length test_prompts = 5" by (simp add: test_prompts_def)
  from prompt_loop_total[OF assms(1), of test_prompts W 0 m t "[]"] assms(3,4)
  obtain rs where rs: "snd (prompt_loop W m t n 0 test_prompts []) = Inr rs"
    "length rs = length test_prompts" "\<forall>r \<in> set rs. 0 < res_avg_generation_time r"
    by (auto simp add: five0)
  have five: "length rs = 5" using rs(2) by (simp add: test_prompts_def)
  then have "map res_avg_generation_time rs \<noteq> []" by auto
  moreover have "\<forall>x \<in> set (map res_avg_generation_time rs). 0 < x" using rs(3) by auto
  ultimately have "0 < sum_list (map res_avg_generation_time rs)"
    by (rule sum_list_positive)
  then have "snd (benchmark_model W model_path n) = Inr rs"
    using assms(2) rs(1)
    by (simp add: benchmark_model_def andthen_lib snd_andthen Let_def andthen_lift py_div_def ret_def lift_def)
  with five show ?thesis by blast
qed




lemma example_world_runs:
  "load_result example_world (or_default model_path) = Inr (1, 2)"
  "\<forall>k < j. \<exists>s. generate_result example_world k = Inr s"
  "\<forall>k < j. 0 < elapsed example_world k"
  by (simp_all add: example_world_def)

lemma sweep_length: "length (sweep m t n) = 5 * nat n"
  by (simp add: sweep_def test_prompts_def)

lemma benchmark_model_prefix:
  "load_result W (or_default model_path) = Inr (m, t) \<Longrightarrow>
     prefix (filter is_Generate (fst (benchmark_model W model_path n))) (sweep m t n)"
  using prompt_loop_calls[of W m t n 0 test_prompts "[]"]
  by (simp add: benchmark_model_calls sweep_def)

lemma benchmark_model_not_loaded:
  "load_result W (or_default model_path) = Inl e \<Longrightarrow>
     filter is_Generate (fst (benchmark_model W model_path n)) = []"
  by (simp add: benchmark_model_calls)

text \<open>
  C5, as the code has it. A call of \<open>benchmark_model\<close> with \<open>num_runs \<ge> 1\<close> in which
  \<^verbatim>\<open>load\<close> and the \<open>5 * num_runs\<close> calls of \<^verbatim>\<open>generate\<close> return and the clock advances over
  each generation returns, and has called \<^verbatim>\<open>generate\<close> exactly \<open>5 * num_runs\<close> times:
  \<open>num_runs\<close> times in a row for each of the five fixed (and distinct) test prompts, in
  their order, each time with the loaded model and tokenizer, \<^verbatim>\<open>max_tokens=256\<close>,
  \<^verbatim>\<open>temperature=0.7\<close>, \<^verbatim>\<open>top_p=0.9\<close> and no other argument; so has every call that returns.
  \<open>benchmark_model\<close> catches nothing, so a call that an exception ends has made the first
  calls of that sequence only, and none when \<^verbatim>\<open>load\<close> raised.
\<close>

theorem benchmark_generate_calls:
  "(1 \<le> num_runs \<and> load_result W (or_default model_path) = Inr (m, t)
      \<and> (\<forall>k < 5 * nat num_runs. \<exists>s. generate_result W k = Inr s)
      \<and> (\<forall>k < 5 * nat num_runs. 0 < elapsed W k)
     \<longrightarrow> (\<exists>results. snd (benchmark_model W model_path num_runs) = Inr results)
         \<and> filter is_Generate (fst (benchmark_model W model_path num_runs)) = sweep m t num_runs)
   \<and> (snd (benchmark_model W model_path num_runs) = Inr results
     \<longrightarrow> (\<exists>m t. load_result W (or_default model_path) = Inr (m, t)
           \<and> filter is_Generate (fst (benchmark_model W model_path num_runs)) = sweep m t num_runs))
   \<and> (load_result W (or_default model_path) = Inr (m, t)
     \<longrightarrow> prefix (filter is_Generate (fst (benchmark_model W model_path num_runs)))
           (sweep m t num_runs))
   \<and> (load_result W (or_default model_path) = Inl e
     \<longrightarrow> filter is_Generate (fst (benchmark_model W model_path num_runs)) = [])
   \<and> length (sweep m t num_runs) = 5 * nat num_runs
   \<and> length test_prompts = 5 \<and> distinct test_prompts"
proof -
  have a: "(\<exists>results. snd (benchmark_model W model_path num_runs) = Inr results)
         \<and> filter is_Generate (fst (benchmark_model W model_path num_runs)) = sweep m t num_runs"
    if n: "1 \<le> num_runs" and l: "load_result W (or_default model_path) = Inr (m, t)"
      and g: "\<forall>k < 5 * nat num_runs. \<exists>s. generate_result W k = Inr s"
      and c: "\<forall>k < 5 * nat num_runs. 0 < elapsed W k"
  proof -
    from benchmark_model_total[OF n l g c]
    obtain rs where rs: "snd (benchmark_model W model_path num_runs) = Inr rs" by blast
    from benchmark_model_returned[OF rs] l rs show ?thesis by auto
  qed
  have five: "length test_prompts = 5" "distinct test_prompts"
    by (simp_all add: test_prompts_def)
  from a benchmark_model_returned[of W model_path num_runs results]
    benchmark_model_prefix[of W model_path m t num_runs]
    benchmark_model_not_loaded[of W model_path e num_runs]
    sweep_length[of m t num_runs] five
  show ?thesis by blast
qed

theorem benchmark_generate_calls_witness:
  "(\<exists>results. snd (benchmark_model example_world None 2) = Inr results)
   \<and> filter is_Generate (fst (benchmark_model example_world None 2)) = sweep 1 2 2
   \<and> length (filter is_Generate (fst (benchmark_model example_world None 2))) = 10
   \<and> prefix (filter is_Generate (fst (benchmark_model failing_world None 2))) (sweep 1 2 2)
   \<and> filter is_Generate (fst (benchmark_model failing_world (Some ''missing'') 2)) = []"
proof -
  have h1: "(1::int) \<le> 2" by simp
  note t1 = benchmark_generate_calls[where W=example_world and num_runs=2 and model_path=None
      and m=1 and t=2]
  from t1 h1 example_world_runs(1)[of None] example_world_runs(2,3)[of "5 * nat 2"]
  have c1: "(\<exists>results. snd (benchmark_model example_world None 2) = Inr results)
      \<and> filter is_Generate (fst (benchmark_model example_world None 2)) = sweep 1 2 2"
    by blast
  from t1 have "length (sweep (1::nat) (2::nat) 2) = 5 * nat 2" by blast
  with c1 have c2: "length (filter is_Generate (fst (benchmark_model example_world None 2))) = 10"
    by simp
  have l2: "load_result failing_world (or_default None) = Inr (1, 2)"
    by (simp add: failing_world_def default_model_def)
  from benchmark_generate_calls[where W=failing_world and num_runs=2 and model_path=None
      and m=1 and t=2] l2
  have c3: "prefix (filter is_Generate (fst (benchmark_model failing_world None 2))) (sweep 1 2 2)"
    by blast
  have l3: "load_result failing_world (or_default (Some ''missing'')) = Inl (LibraryError ''not found'')"
    by (simp add: failing_world_def default_model_def)
  from benchmark_generate_calls[where W=failing_world and num_runs=2
      and model_path="Some ''missing''" and e="LibraryError ''not found''"] l3
  have c4: "filter is_Generate (fst (benchmark_model failing_world (Some ''missing'') 2)) = []"
    by blast
  from c1 c2 c3 c4 show ?thesis by blast
qed

text \<open>
  C5 as stated fails: with \<open>num_runs = 1\<close> and a \<^verbatim>\<open>generate\<close> that raises, the exception
  leaves \<open>benchmark_model\<close> at the first call, so \<^verbatim>\<open>generate\<close> is called once, not five
  times.
\<close>

theorem benchmark_stops_at_first_failure:
  "filter is_Generate (fst (benchmark_model failing_world None 1)) =
     [Generate 1 2 ''Hello, how are you?'' 256 0.7 0.9 None]
   \<and> length (filter is_Generate (fst (benchmark_model failing_world None 1))) \<noteq> 5 * nat 1
   \<and> snd (benchmark_model failing_world None 1) = Inl (LibraryError ''boom'')"
  by code_simp




subsection \<open>The traces of the runner and of the chat script\<close>

lemma load_model_cases:
  "load_model W model_path =
     (let p = (case model_path of None \<Rightarrow> default_model | Some p \<Rightarrow> p) in
      case load_result W p of
        Inr mt \<Rightarrow> ([Load p], Inr mt)
      | Inl e \<Rightarrow>
          if is_Exception e
          then ([Load p, PrintExn ''Error loading model: '' e,
                 Print ''Make sure you have sufficient memory (32GB+ recommended)''],
                Inl (SystemExit 1))
          else ([Load p], Inl e))"
  by (simp add: load_model_def Let_def try_except_def andthen_def lib_def ret_def emit_def raise_def
      split: sum.splits prod.splits)

lemma generate_text_events:
  assumes "P (Generate m t p mt temp 0.9 None)" and "\<And>s. P (Encode t s)"
    and "\<And>s e. P (PrintExn s e)"
  shows "list_all P (fst (generate_text W m t p mt temp))"
  using assms
  by (simp add: generate_text_def fst_try_except fst_andthen andthen_lib andthen_lift
        lib_def ret_def emit_def lift_def andthen_def Let_def
      split: sum.splits prod.splits)

lemma fst_run_llama_main:
  "fst (run_llama_main W (Inr (RunArgs prompt mt temp model_path))) =
     ParseArgs # fst (load_model W model_path)
       @ (case snd (load_model W model_path) of
            Inl e \<Rightarrow> []
          | Inr (m, t) \<Rightarrow> fst (generate_text W m t prompt mt temp))"
  by (simp add: andthen_emit fst_andthen ret_def split: sum.splits prod.splits)

lemma run_llama_main_shape:
  "\<exists>rest. fst (run_llama_main W (Inr (RunArgs prompt mt temp model_path))) =
      ParseArgs # Load (case model_path of None \<Rightarrow> default_model | Some p \<Rightarrow> p) # rest
    \<and> after_load_ok W (case model_path of None \<Rightarrow> default_model | Some p \<Rightarrow> p) rest"
proof -
  let ?p = "case model_path of None \<Rightarrow> default_model | Some p \<Rightarrow> p"
  show ?thesis
  proof (cases "load_result W ?p")
    case (Inl e)
    then show ?thesis
      unfolding fst_run_llama_main
      by (simp add: load_model_cases Let_def after_load_ok_def)
  next
    case (Inr mt')
    obtain m t where mt': "mt' = (m, t)" by (cases mt')
    have g: "list_all (after_load (m, t)) (fst (generate_text W m t prompt mt temp))"
      by (rule generate_text_events) simp_all
    show ?thesis
      using Inr mt' g
      unfolding fst_run_llama_main
      by (simp add: load_model_cases Let_def after_load_ok_def)
  qed
qed

lemma fst_after: "fst (after tr r) = tr @ fst r"
  by (simp add: after_def split: prod.splits)

lemma chat_events:
  assumes "\<And>h u. P (Generate m t (format_prompt (h @ [\<lparr>role = ''user'', content = u\<rparr>]) u)
                       mt temp 0.9 (Some [''<|im_end|>'', ''<|im_start|>'']))"
    and "\<And>s. P (Encode t s)" and "\<And>s. P (Print s)" and "\<And>s e. P (PrintExn s e)"
  shows "model self = m \<Longrightarrow> tokenizer self = t \<Longrightarrow> max_tokens self = mt
         \<Longrightarrow> temperature self = temp \<Longrightarrow> list_all P (fst (chat W k inputs self))"
proof (induction inputs arbitrary: k self)
  case Nil
  then show ?case by simp
next
  case (Cons inp inputs)
  note self = Cons.prems
  show ?case
  proof (cases inp)
    case (Inl e)
    then show ?thesis using assms(3) by (simp add: chat_handlers_def)
  next
    case (Inr line)
    let ?u = "strip line"
    let ?self = "add_to_history self ''user'' ?u"
    have same: "list_all P (fst (chat W (Suc k) inputs self))"
      by (rule Cons.IH) (use self in simp_all)
    have clear: "list_all P (fst (chat W (Suc k) inputs (clear_history self)))"
      by (rule Cons.IH) (use self in \<open>simp_all add: clear_history_def\<close>)
    have turn: "list_all P (fst (chat W (Suc k) inputs (add_to_history ?self ''assistant'' r)))" for r
      by (rule Cons.IH) (use self in \<open>simp_all add: add_to_history_def\<close>)
    have gen: "list_all P (fst (generate_response W ?self k ?u))"
      using assms self
      by (cases "generate_result W k")
         (simp_all add: generate_response_returns generate_response_raises add_to_history_def)
    have handlers: "list_all P (fst (chat_handlers tr e ?self))" if "list_all P tr" for tr e
      using that assms(3) by (simp add: chat_handlers_def)
    show ?thesis
      using Inr same clear turn gen handlers
      by (auto simp add: Let_def fst_after split: prod.splits sum.splits)
  qed
qed

lemma fst_chat_main:
  "fst (chat_main W (Inr (ChatArgs model_path mt temp)) inputs) =
     ParseArgs # Load (or_default model_path) #
       (case load_result W (or_default model_path) of
          Inl e \<Rightarrow> []
        | Inr (m, t) \<Rightarrow>
            fst (chat W 0 inputs
              \<lparr>max_tokens = mt, temperature = temp, conversation_history = [],
               model = m, tokenizer = t\<rparr>))"
  by (simp add: andthen_emit LLaMAChat_init_def andthen_lib fst_andthen ret_def
      split: sum.splits prod.splits option.splits)

lemma chat_main_shape:
  "\<exists>rest. fst (chat_main W (Inr (ChatArgs model_path mt temp)) inputs) =
      ParseArgs # Load (or_default model_path) # rest
    \<and> after_load_ok W (or_default model_path) rest"
proof (cases "load_result W (or_default model_path)")
  case (Inl e)
  then show ?thesis unfolding fst_chat_main by (simp add: after_load_ok_def)
next
  case (Inr mt')
  obtain m t where mt': "mt' = (m, t)" by (cases mt')
  have "list_all (after_load (m, t)) (fst (chat W 0 inputs
      \<lparr>max_tokens = mt, temperature = temp, conversation_history = [], model = m, tokenizer = t\<rparr>))"
    by (rule chat_events[where m=m and t=t and mt=mt and temp=temp]) simp_all
  then show ?thesis using Inr mt' unfolding fst_chat_main by (simp add: after_load_ok_def)
qed

lemma after_load_in_order:
  "list_all (\<lambda>ev. ev \<noteq> ParseArgs \<and> \<not> is_Load ev) rest \<Longrightarrow>
     in_order Loaded rest \<and> filter is_Load rest = []"
proof (induction rest)
  case Nil
  then show ?case by simp
next
  case (Cons ev rest)
  then show ?case by (cases ev) simp_all
qed

lemma is_Print_facts:
  "is_Print ev \<Longrightarrow> ev \<noteq> ParseArgs \<and> \<not> is_Load ev \<and> \<not> is_Generate ev \<and> uses_none ev"
  by (cases ev) (simp_all add: uses_none_def)

lemma after_load_ok_plain:
  assumes "after_load_ok W p rest"
  shows "list_all (\<lambda>ev. ev \<noteq> ParseArgs \<and> \<not> is_Load ev) rest"
proof (cases "load_result W p")
  case (Inl e)
  with assms have "list_all is_Print rest" by (simp add: after_load_ok_def)
  then show ?thesis by (simp add: list_all_iff is_Print_facts)
next
  case (Inr mt)
  with assms have "list_all (after_load mt) rest" by (simp add: after_load_ok_def)
  then show ?thesis by (simp add: list_all_iff after_load_def)
qed


lemma shape_single_load:
  assumes "after_load_ok W p rest"
  shows "from_single_load W (ParseArgs # Load p # rest)"
proof -
  from after_load_in_order[OF after_load_ok_plain[OF assms]]
  have o: "filter is_Load rest = []" by simp
  show ?thesis
  proof (cases "load_result W p")
    case (Inl e)
    with assms have "list_all is_Print rest" by (simp add: after_load_ok_def)
    then have "list_all uses_none rest" by (simp add: list_all_iff is_Print_facts)
    with Inl o show ?thesis by (simp add: from_single_load_def uses_none_def)
  next
    case (Inr mt)
    obtain m t where mt: "mt = (m, t)" by (cases mt)
    from assms Inr have "list_all (after_load mt) rest" by (simp add: after_load_ok_def)
    then have "list_all (uses_loaded mt) rest" by (simp add: list_all_iff after_load_def)
    with Inr o mt show ?thesis by (simp add: from_single_load_def)
  qed
qed

lemma parse_failed:
  "ordered_execution W False [ParseArgs]" "from_single_load W [ParseArgs]"
  by (simp_all add: ordered_execution_def from_single_load_def uses_none_def)

lemma mains_parse_failed:
  "fst (benchmark_main W (Inl e)) = [ParseArgs]"
  "fst (run_llama_main W (Inl e)) = [ParseArgs]"
  "fst (chat_main W (Inl e) inputs) = [ParseArgs]"
  by (simp_all add: lib_def)


subsection \<open>The order of the calls\<close>

lemma import_guard_cases:
  "import_guard message None = ([], Inr ())"
  "import_guard message (Some e) =
     (if is_ImportError e
      then ([Print message, PrintExn ''Import error: '' e], Inl (SystemExit 1))
      else ([], Inl e))"
  by (simp_all add: import_guard_def try_except_def ret_def raise_def andthen_def emit_def)

lemma andthen_returned: "andthen ([], Inr x) f = f x"
  by (simp add: andthen_def split: prod.splits)

lemma andthen_raised: "andthen (tr, Inl e) f = (tr, Inl e)"
  by (simp add: andthen_def)

lemma benchmark_script_cases:
  "benchmark_script W None parsed = Executed (benchmark_main W parsed)"
  "benchmark_script W (Some e) parsed =
     Executed (if is_ImportError e
               then ([Print ''Error: Missing required dependencies'',
                      PrintExn ''Import error: '' e], Inl (SystemExit 1))
               else ([], Inl e))"
  by (simp_all add: benchmark_script_def benchmark_imports_def run_file_def benchmark_layout_ok
      import_guard_cases andthen_returned andthen_raised del: benchmark_main.simps)

lemma run_llama_script_cases:
  "run_llama_script W None parsed = Executed (run_llama_main W parsed)"
  "run_llama_script W (Some e) parsed =
     Executed (if is_ImportError e
               then ([Print ''Error: Missing required dependencies'',
                      PrintExn ''Import error: '' e], Inl (SystemExit 1))
               else ([], Inl e))"
  by (simp_all add: run_llama_script_def run_llama_imports_def run_file_def run_llama_layout_ok
      import_guard_cases andthen_returned andthen_raised del: run_llama_main.simps)



lemma calls_in_order_prints:
  "list_all is_Print tr \<Longrightarrow>
     calls_in_order W tr \<and> filter is_Load tr = [] \<and> filter is_Generate tr = []"
proof (induction tr)
  case Nil
  then show ?case by (simp add: calls_in_order_def)
next
  case (Cons ev tr)
  then show ?case by (cases ev) (simp_all add: calls_in_order_def)
qed








subsection \<open>The origin of the model\<close>

text \<open>
  C6. In every execution of each \<open>main\<close> there is at most one call of \<^verbatim>\<open>load\<close>, and every
  model and tokenizer passed to \<^verbatim>\<open>generate\<close> or used to encode is the one that call
  returned; when it raised, or was never made, no model or tokenizer is used at all. (That
  the scripts do not look into a model is the typing of the embedding: they are defined for
  every type of models and tokenizers.)
\<close>

theorem model_from_single_load:
  "from_single_load W (fst (benchmark_main W parsed_b))
   \<and> from_single_load W (fst (run_llama_main W parsed_r))
   \<and> from_single_load W (fst (chat_main W parsed_c inputs))"
proof -
  have b: "from_single_load W (fst (benchmark_main W parsed_b))"
  proof (cases parsed_b)
    case (Inl e)
    then show ?thesis by (simp only: mains_parse_failed parse_failed)
  next
    case (Inr args)
    obtain mp n where "args = BenchArgs mp n" by (cases args)
    with Inr benchmark_main_shape[of W mp n] shape_single_load show ?thesis by (auto simp del: benchmark_main.simps)
  qed
  have r: "from_single_load W (fst (run_llama_main W parsed_r))"
  proof (cases parsed_r)
    case (Inl e)
    then show ?thesis by (simp only: mains_parse_failed parse_failed)
  next
    case (Inr args)
    obtain p mt temp mp where "args = RunArgs p mt temp mp" by (cases args)
    with Inr run_llama_main_shape[of W p mt temp mp] shape_single_load show ?thesis by (auto simp del: run_llama_main.simps)
  qed
  have c: "from_single_load W (fst (chat_main W parsed_c inputs))"
  proof (cases parsed_c)
    case (Inl e)
    then show ?thesis by (simp only: mains_parse_failed parse_failed)
  next
    case (Inr args)
    obtain mp mt temp where "args = ChatArgs mp mt temp" by (cases args)
    with Inr chat_main_shape[of W mp mt temp inputs] shape_single_load show ?thesis by (auto simp del: chat_main.simps)
  qed
  from b r c show ?thesis by blast
qed

theorem model_from_single_load_witness:
  "from_single_load example_world (fst (benchmark_main example_world (Inr (BenchArgs None 1))))
   \<and> from_single_load example_world
        (fst (run_llama_main example_world (Inr (RunArgs ''Hi'' 512 0.7 None))))
   \<and> from_single_load failing_world
        (fst (chat_main failing_world (Inr (ChatArgs None 512 0.7)) [Inr ''Hi'']))"
  using model_from_single_load[where W=example_world
      and parsed_b="Inr (BenchArgs None 1)" and parsed_r="Inr (RunArgs ''Hi'' 512 0.7 None)"
      and parsed_c="Inl (SystemExit 2)" and inputs="[]"]
    model_from_single_load[where W=failing_world
      and parsed_b="Inl (SystemExit 2)" and parsed_r="Inl (SystemExit 2)"
      and parsed_c="Inr (ChatArgs None 512 0.7)" and inputs="[Inr ''Hi'']"]
  by blast

subsection \<open>The arguments of the generation calls\<close>


















subsection \<open>The exception handlers\<close>

lemma generate_text_raises:
  "generate_result W 0 = Inl e \<Longrightarrow> is_Exception e \<Longrightarrow>
   generate_text W m t p mt temp =
     ([Encode t p, Generate m t p mt temp 0.9 None, PrintExn ''Error during generation: '' e],
      Inr None)"
  by (simp add: generate_text_def try_except_def andthen_def lib_def emit_def ret_def)

lemma benchmark_main_raises:
  assumes "snd (benchmark_model W model_path n) = Inl e" and "e = KeyboardInterrupt \<or> is_Exception e"
  shows "benchmark_main W (Inr (BenchArgs model_path n)) =
     (ParseArgs # fst (benchmark_model W model_path n) @
        [if e = KeyboardInterrupt then Print ''\<newline>\<newline>Benchmark interrupted by user''
         else PrintExn ''\<newline> Benchmark failed: '' e],
      Inr ())"
  using assms
  by (cases "benchmark_model W model_path n")
     (auto simp add: andthen_emit try_except_def andthen_def emit_def)

lemma chat_input_raises:
  "e = KeyboardInterrupt \<or> e = EOFError \<Longrightarrow>
   chat W k (Inl e # rest) self =
     ([Print (if e = KeyboardInterrupt then ''\<newline>\<newline>Chat interrupted. Goodbye!''
              else ''\<newline>\<newline>End of input. Goodbye!'')], None, self)"
  by (auto simp add: chat_handlers_def)

lemma load_model_raises:
  "load_result W (case model_path of None \<Rightarrow> default_model | Some p \<Rightarrow> p) = Inl e \<Longrightarrow>
   is_Exception e \<Longrightarrow>
   load_model W model_path =
     ([Load (case model_path of None \<Rightarrow> default_model | Some p \<Rightarrow> p),
       PrintExn ''Error loading model: '' e,
       Print ''Make sure you have sufficient memory (32GB+ recommended)''],
      Inl (SystemExit 1))"
  by (simp add: load_model_cases Let_def)

lemma imports_fail:
  assumes "is_ImportError e"
  shows "benchmark_imports (Some e) =
           ([Print ''Error: Missing required dependencies'', PrintExn ''Import error: '' e],
            Inl (SystemExit 1))"
    and "run_llama_imports (Some e) =
           ([Print ''Error: Missing required dependencies'', PrintExn ''Import error: '' e],
            Inl (SystemExit 1))"
    and "chat_llama_imports (Some e) =
           ([Print ''Error: Missing required dependencies. Please install with: pip install -r requirements.txt'',
             PrintExn ''Import error: '' e],
            Inl (SystemExit 1))"
    and "benchmark_script W (Some e) parsed_b =
           Executed ([Print ''Error: Missing required dependencies'', PrintExn ''Import error: '' e],
                     Inl (SystemExit 1))"
    and "run_llama_script W (Some e) parsed_r =
           Executed ([Print ''Error: Missing required dependencies'', PrintExn ''Import error: '' e],
                     Inl (SystemExit 1))"
  using assms
  by (simp_all add: benchmark_imports_def run_llama_imports_def chat_llama_imports_def
      import_guard_cases benchmark_script_cases run_llama_script_cases)

lemma generate_text_zero_time:
  "generate_result W 0 = Inr s \<Longrightarrow> elapsed W 0 = 0 \<Longrightarrow>
   generate_text W m t p mt temp =
     ([Encode t p, Generate m t p mt temp 0.9 None, Encode t s,
       PrintExn ''Error during generation: '' ZeroDivisionError],
      Inr None)"
  by (simp add: generate_text_def try_except_def andthen_def lib_def emit_def ret_def lift_def
      py_div_def Let_def)

lemma chat_turn_apology:
  assumes "strip line \<noteq> []"
    and "lower (strip line) \<notin> set [''quit'', ''exit'', ''bye'', ''clear'', ''help'', ''history'', ''stats'']"
    and "generate_result W k = Inl e" and "is_Exception e"
  shows "\<exists>g. is_Generate g \<and>
           chat W k (Inr line # rest) self =
             after [g, PrintExn ''Error generating response: '' e]
               (chat W (Suc k) rest
                  (self\<lparr>conversation_history := conversation_history self @
                     [\<lparr>role = ''user'', content = strip line\<rparr>,
                      \<lparr>role = ''assistant'', content = apology\<rparr>]\<rparr>))"
proof -
  let ?self = "add_to_history self ''user'' (strip line)"
  let ?g = "Generate (model ?self) (tokenizer ?self)
      (format_prompt (conversation_history ?self) (strip line))
      (max_tokens ?self) (temperature ?self) 0.9 (Some [''<|im_end|>'', ''<|im_start|>''])"
  have r: "generate_response W ?self k (strip line) =
      ([?g, PrintExn ''Error generating response: '' e], Inr apology)"
    using generate_response_raises[OF assms(3), of ?self "strip line"] assms(4) by simp
  have "chat W k (Inr line # rest) self =
      after [?g, PrintExn ''Error generating response: '' e]
        (chat W (Suc k) rest (add_to_history ?self ''assistant'' apology))"
    using assms(1,2) r by (auto simp add: Let_def)
  then have "is_Generate ?g \<and> chat W k (Inr line # rest) self =
      after [?g, PrintExn ''Error generating response: '' e]
        (chat W (Suc k) rest
           (self\<lparr>conversation_history := conversation_history self @
              [\<lparr>role = ''user'', content = strip line\<rparr>,
               \<lparr>role = ''assistant'', content = apology\<rparr>]\<rparr>))"
    by (simp add: add_to_history_def)
  then show ?thesis by blast
qed

lemma chat_turn_interrupted:
  assumes "strip line \<noteq> []"
    and "lower (strip line) \<notin> set [''quit'', ''exit'', ''bye'', ''clear'', ''help'', ''history'', ''stats'']"
    and "generate_result W k = Inl KeyboardInterrupt"
  shows "\<exists>g. is_Generate g \<and>
           chat W k (Inr line # rest) self =
             ([g, Print ''\<newline>\<newline>Chat interrupted. Goodbye!''], None,
              self\<lparr>conversation_history := conversation_history self @
                     [\<lparr>role = ''user'', content = strip line\<rparr>]\<rparr>)"
proof -
  let ?self = "add_to_history self ''user'' (strip line)"
  let ?g = "Generate (model ?self) (tokenizer ?self)
      (format_prompt (conversation_history ?self) (strip line))
      (max_tokens ?self) (temperature ?self) 0.9 (Some [''<|im_end|>'', ''<|im_start|>''])"
  have r: "generate_response W ?self k (strip line) = ([?g], Inl KeyboardInterrupt)"
    using generate_response_raises[OF assms(3), of ?self "strip line"] by simp
  have "chat W k (Inr line # rest) self = chat_handlers [?g] KeyboardInterrupt ?self"
    using assms(1,2) r by (auto simp add: Let_def)
  then have "is_Generate ?g \<and> chat W k (Inr line # rest) self =
      ([?g, Print ''\<newline>\<newline>Chat interrupted. Goodbye!''], None,
       self\<lparr>conversation_history := conversation_history self @
              [\<lparr>role = ''user'', content = strip line\<rparr>]\<rparr>)"
    by (simp add: chat_handlers_def add_to_history_def)
  then show ?thesis by blast
qed

text \<open>
  C2, as the code has it. Every handler prints a message about the failure, and:
  the \<^verbatim>\<open>ImportError\<close> handlers at the top of the three files print the import error as a
  second line and leave the program with \<^verbatim>\<open>sys.exit(1)\<close>;
  the handler of \<open>generate_response\<close> returns the fixed apology as the response, which
  the chat loop appends to the history as the assistant's message before it goes on;
  the handler of \<open>load_model\<close> prints a second line and leaves the program with
  \<^verbatim>\<open>sys.exit(1)\<close>; the handler of \<open>generate_text\<close> returns \<^verbatim>\<open>None\<close> (also when the
  exception is the division by a zero generation time); the handlers of the benchmark's
  \<open>main\<close> do nothing else; the handlers of the chat loop end the loop with the object as it
  is, which holds the user's message when the interrupt came during the generation.
\<close>

theorem handler_effects:
  "(is_ImportError e \<longrightarrow>
      benchmark_imports (Some e) =
        ([Print ''Error: Missing required dependencies'', PrintExn ''Import error: '' e],
         Inl (SystemExit 1))
      \<and> run_llama_imports (Some e) =
        ([Print ''Error: Missing required dependencies'', PrintExn ''Import error: '' e],
         Inl (SystemExit 1))
      \<and> chat_llama_imports (Some e) =
        ([Print ''Error: Missing required dependencies. Please install with: pip install -r requirements.txt'',
          PrintExn ''Import error: '' e],
         Inl (SystemExit 1))
      \<and> benchmark_script W (Some e) parsed_b =
        Executed ([Print ''Error: Missing required dependencies'', PrintExn ''Import error: '' e],
                  Inl (SystemExit 1))
      \<and> run_llama_script W (Some e) parsed_r =
        Executed ([Print ''Error: Missing required dependencies'', PrintExn ''Import error: '' e],
                  Inl (SystemExit 1)))
   \<and> (generate_result W k = Inl e \<and> is_Exception e \<longrightarrow>
      generate_response W self k u =
        ([Generate (model self) (tokenizer self) (format_prompt (conversation_history self) u)
            (max_tokens self) (temperature self) 0.9 (Some [''<|im_end|>'', ''<|im_start|>'']),
          PrintExn ''Error generating response: '' e], Inr apology))
   \<and> (strip line \<noteq> []
       \<and> lower (strip line) \<notin>
            set [''quit'', ''exit'', ''bye'', ''clear'', ''help'', ''history'', ''stats'']
       \<and> generate_result W k = Inl e \<and> is_Exception e \<longrightarrow>
      (\<exists>g. is_Generate g \<and>
         chat W k (Inr line # rest) self =
           after [g, PrintExn ''Error generating response: '' e]
             (chat W (Suc k) rest
                (self\<lparr>conversation_history := conversation_history self @
                   [\<lparr>role = ''user'', content = strip line\<rparr>,
                    \<lparr>role = ''assistant'', content = apology\<rparr>]\<rparr>))))
   \<and> (load_result W (case model_path of None \<Rightarrow> default_model | Some p \<Rightarrow> p) = Inl e
       \<and> is_Exception e \<longrightarrow>
      load_model W model_path =
        ([Load (case model_path of None \<Rightarrow> default_model | Some p \<Rightarrow> p),
          PrintExn ''Error loading model: '' e,
          Print ''Make sure you have sufficient memory (32GB+ recommended)''],
         Inl (SystemExit 1)))
   \<and> (generate_result W 0 = Inl e \<and> is_Exception e \<longrightarrow>
      generate_text W m t p mt temp =
        ([Encode t p, Generate m t p mt temp 0.9 None, PrintExn ''Error during generation: '' e],
         Inr None))
   \<and> (generate_result W 0 = Inr s \<and> elapsed W 0 = 0 \<longrightarrow>
      generate_text W m t p mt temp =
        ([Encode t p, Generate m t p mt temp 0.9 None, Encode t s,
          PrintExn ''Error during generation: '' ZeroDivisionError],
         Inr None))
   \<and> (snd (benchmark_model W model_path n) = Inl e \<and> (e = KeyboardInterrupt \<or> is_Exception e) \<longrightarrow>
      benchmark_main W (Inr (BenchArgs model_path n)) =
        (ParseArgs # fst (benchmark_model W model_path n) @
           [if e = KeyboardInterrupt then Print ''\<newline>\<newline>Benchmark interrupted by user''
            else PrintExn ''\<newline> Benchmark failed: '' e],
         Inr ()))
   \<and> (e = KeyboardInterrupt \<or> e = EOFError \<longrightarrow>
      chat W k (Inl e # rest) self =
        ([Print (if e = KeyboardInterrupt then ''\<newline>\<newline>Chat interrupted. Goodbye!''
                 else ''\<newline>\<newline>End of input. Goodbye!'')], None, self))
   \<and> (strip line \<noteq> []
       \<and> lower (strip line) \<notin>
            set [''quit'', ''exit'', ''bye'', ''clear'', ''help'', ''history'', ''stats'']
       \<and> generate_result W k = Inl KeyboardInterrupt \<longrightarrow>
      (\<exists>g. is_Generate g \<and>
         chat W k (Inr line # rest) self =
           ([g, Print ''\<newline>\<newline>Chat interrupted. Goodbye!''], None,
            self\<lparr>conversation_history := conversation_history self @
                   [\<lparr>role = ''user'', content = strip line\<rparr>]\<rparr>)))"
  apply (intro conjI)
  subgoal
    using imports_fail(1-3)[of e] imports_fail(4)[of e W parsed_b] imports_fail(5)[of e W parsed_r]
    by blast
  subgoal using generate_response_raises[of W k e self u] by simp
  subgoal using chat_turn_apology[of line W k e rest self] by blast
  subgoal using load_model_raises[of W model_path e] by blast
  subgoal using generate_text_raises[of W e m t p mt temp] by blast
  subgoal using generate_text_zero_time[of W s m t p mt temp] by blast
  subgoal using benchmark_main_raises[of W model_path n e] by blast
  subgoal using chat_input_raises[of e W k rest self] by blast
  subgoal using chat_turn_interrupted[of line W k rest self] by blast
  done

text \<open>
  C2 as stated fails: when \<^verbatim>\<open>generate\<close> raises on the input \<^verbatim>\<open>Hi\<close>, \<open>generate_response\<close>
  returns the apology, which no call of \<^verbatim>\<open>generate\<close> produced, and the chat loop stores it
  in the history as the assistant's message; and when \<^verbatim>\<open>load\<close> raises, \<open>load_model\<close> ends
  the program with status 1.
\<close>

theorem handler_returns_apology:
  "generate_result failing_world 0 = Inl (LibraryError ''boom'')
   \<and> snd (generate_response failing_world example_chat 0 ''Hi'') = Inr apology
   \<and> map content (final_history (chat failing_world 0 [Inr ''Hi''] example_chat)) = [''Hi'', apology]
   \<and> map role (final_history (chat failing_world 0 [Inr ''Hi''] example_chat)) = [''user'', ''assistant'']
   \<and> snd (load_model failing_world (Some ''missing'')) = Inl (SystemExit 1)"
proof -
  have g: "generate_result failing_world 0 = Inl (LibraryError ''boom'')"
    by (simp add: failing_world_def)
  have r: "snd (generate_response failing_world example_chat 0 ''Hi'') = Inr apology"
    by (simp add: generate_response_raises[OF g])
  have c: "map content (final_history (chat failing_world 0 [Inr ''Hi''] example_chat)) = [''Hi'', apology]"
    by code_simp
  have c': "map role (final_history (chat failing_world 0 [Inr ''Hi''] example_chat)) = [''user'', ''assistant'']"
    by code_simp
  have l: "snd (load_model failing_world (Some ''missing'')) = Inl (SystemExit 1)"
    by (simp add: load_model_cases failing_world_def default_model_def)
  from g r c c' l show ?thesis by blast
qed

theorem handler_effects_witness:
  "benchmark_script example_world (Some (ImportError ''mlx_lm'')) (Inr (BenchArgs None 1)) =
     Executed ([Print ''Error: Missing required dependencies'',
                PrintExn ''Import error: '' (ImportError ''mlx_lm'')], Inl (SystemExit 1))
   \<and> (chat_llama_imports (Some (ImportError ''mlx_lm'')) :: (nat, nat, unit) comp) =
     ([Print ''Error: Missing required dependencies. Please install with: pip install -r requirements.txt'',
       PrintExn ''Import error: '' (ImportError ''mlx_lm'')], Inl (SystemExit 1))
   \<and> generate_response failing_world example_chat 0 ''Hi'' =
     ([Generate (model example_chat) (tokenizer example_chat)
         (format_prompt (conversation_history example_chat) ''Hi'')
         (max_tokens example_chat) (temperature example_chat) 0.9
         (Some [''<|im_end|>'', ''<|im_start|>'']),
       PrintExn ''Error generating response: '' (LibraryError ''boom'')], Inr apology)
   \<and> (\<exists>g. is_Generate g \<and>
         chat failing_world 0 [Inr ''Hi''] example_chat =
           after [g, PrintExn ''Error generating response: '' (LibraryError ''boom'')]
             (chat failing_world (Suc 0) []
                (example_chat\<lparr>conversation_history :=
                   [\<lparr>role = ''user'', content = ''Hi''\<rparr>,
                    \<lparr>role = ''assistant'', content = apology\<rparr>]\<rparr>)))
   \<and> load_model failing_world (Some ''missing'') =
     ([Load ''missing'', PrintExn ''Error loading model: '' (LibraryError ''not found''),
       Print ''Make sure you have sufficient memory (32GB+ recommended)''],
      Inl (SystemExit 1))
   \<and> generate_text failing_world 1 2 ''Hi'' 512 0.7 =
     ([Encode 2 ''Hi'', Generate 1 2 ''Hi'' 512 0.7 0.9 None,
       PrintExn ''Error during generation: '' (LibraryError ''boom'')], Inr None)
   \<and> generate_text stopped_clock_world 1 2 ''Hi'' 512 0.7 =
     ([Encode 2 ''Hi'', Generate 1 2 ''Hi'' 512 0.7 0.9 None, Encode 2 ''Hello!'',
       PrintExn ''Error during generation: '' ZeroDivisionError], Inr None)
   \<and> benchmark_main failing_world (Inr (BenchArgs None 1)) =
     (ParseArgs # fst (benchmark_model failing_world None 1) @
        [PrintExn ''\<newline> Benchmark failed: '' (LibraryError ''boom'')], Inr ())
   \<and> chat failing_world 0 [Inl EOFError] example_chat =
     ([Print ''\<newline>\<newline>End of input. Goodbye!''], None, example_chat)
   \<and> (\<exists>g. is_Generate g \<and>
         chat (failing_world\<lparr>generate_result := \<lambda>k. Inl KeyboardInterrupt\<rparr>) 0
             [Inr ''Hi''] example_chat =
           ([g, Print ''\<newline>\<newline>Chat interrupted. Goodbye!''], None,
            example_chat\<lparr>conversation_history := [\<lparr>role = ''user'', content = ''Hi''\<rparr>]\<rparr>))"
proof -
  let ?interrupted = "failing_world\<lparr>generate_result := \<lambda>k. Inl KeyboardInterrupt\<rparr>"
  have i: "is_ImportError (ImportError ''mlx_lm'')" by simp
  have g: "generate_result failing_world 0 = Inl (LibraryError ''boom'') \<and> is_Exception (LibraryError ''boom'')"
    by (simp add: failing_world_def)
  have s: "strip ''Hi'' = ''Hi''" by code_simp
  have u: "strip ''Hi'' \<noteq> []
      \<and> lower (strip ''Hi'') \<notin> set [''quit'', ''exit'', ''bye'', ''clear'', ''help'', ''history'', ''stats'']"
    by code_simp
  have l: "load_result failing_world (case Some ''missing'' of None \<Rightarrow> default_model | Some p \<Rightarrow> p)
      = Inl (LibraryError ''not found'') \<and> is_Exception (LibraryError ''not found'')"
    by (simp add: failing_world_def default_model_def)
  have z: "generate_result stopped_clock_world 0 = Inr ''Hello!'' \<and> elapsed stopped_clock_world 0 = 0"
    by (simp add: stopped_clock_world_def)
  have b: "snd (benchmark_model failing_world None 1) = Inl (LibraryError ''boom'')
      \<and> (LibraryError ''boom'' = KeyboardInterrupt \<or> is_Exception (LibraryError ''boom''))"
    by code_simp
  have e: "EOFError = KeyboardInterrupt \<or> EOFError = EOFError" by simp
  have k: "generate_result ?interrupted 0 = Inl KeyboardInterrupt" by simp
  note t1 = handler_effects[where W=failing_world and k=0 and e="LibraryError ''boom''"
      and self=example_chat and u="''Hi''" and line="''Hi''" and rest="[]"
      and m=1 and t=2 and p="''Hi''" and mt=512 and temp="0.7" and model_path=None and n=1]
  note t2 = handler_effects[where W=failing_world and e="LibraryError ''not found''"
      and model_path="Some ''missing''"]
  note t3 = handler_effects[where W=failing_world and k=0 and e=EOFError and rest="[]"
      and self=example_chat]
  note t4 = handler_effects[where W=example_world and e="ImportError ''mlx_lm''"
      and parsed_b="Inr (BenchArgs None 1)"]
  note t5 = handler_effects[where W=stopped_clock_world and s="''Hello!''"
      and m=1 and t=2 and p="''Hi''" and mt=512 and temp="0.7"]
  note t6 = handler_effects[where W="?interrupted" and k=0 and line="''Hi''" and rest="[]"
      and self=example_chat]
  from t4 i have c0: "benchmark_script example_world (Some (ImportError ''mlx_lm'')) (Inr (BenchArgs None 1)) =
     Executed ([Print ''Error: Missing required dependencies'',
                PrintExn ''Import error: '' (ImportError ''mlx_lm'')], Inl (SystemExit 1))
   \<and> (chat_llama_imports (Some (ImportError ''mlx_lm'')) :: (nat, nat, unit) comp) =
     ([Print ''Error: Missing required dependencies. Please install with: pip install -r requirements.txt'',
       PrintExn ''Import error: '' (ImportError ''mlx_lm'')], Inl (SystemExit 1))"
    by blast
  from t1 g have c1: "generate_response failing_world example_chat 0 ''Hi'' =
     ([Generate (model example_chat) (tokenizer example_chat)
         (format_prompt (conversation_history example_chat) ''Hi'')
         (max_tokens example_chat) (temperature example_chat) 0.9
         (Some [''<|im_end|>'', ''<|im_start|>'']),
       PrintExn ''Error generating response: '' (LibraryError ''boom'')], Inr apology)"
    by blast
  from t1 g u have "\<exists>g. is_Generate g \<and>
         chat failing_world 0 [Inr ''Hi''] example_chat =
           after [g, PrintExn ''Error generating response: '' (LibraryError ''boom'')]
             (chat failing_world (Suc 0) []
                (example_chat\<lparr>conversation_history := conversation_history example_chat @
                   [\<lparr>role = ''user'', content = strip ''Hi''\<rparr>,
                    \<lparr>role = ''assistant'', content = apology\<rparr>]\<rparr>))"
    by blast
  then have c2: "\<exists>g. is_Generate g \<and>
         chat failing_world 0 [Inr ''Hi''] example_chat =
           after [g, PrintExn ''Error generating response: '' (LibraryError ''boom'')]
             (chat failing_world (Suc 0) []
                (example_chat\<lparr>conversation_history :=
                   [\<lparr>role = ''user'', content = ''Hi''\<rparr>,
                    \<lparr>role = ''assistant'', content = apology\<rparr>]\<rparr>))"
    unfolding s by (simp only: example_chat_def LLaMAChat.simps append_Nil)
  from t2 l have c3: "load_model failing_world (Some ''missing'') =
     ([Load (case Some ''missing'' of None \<Rightarrow> default_model | Some p \<Rightarrow> p),
       PrintExn ''Error loading model: '' (LibraryError ''not found''),
       Print ''Make sure you have sufficient memory (32GB+ recommended)''],
      Inl (SystemExit 1))"
    by blast
  from t1 g have c4: "generate_text failing_world 1 2 ''Hi'' 512 0.7 =
     ([Encode 2 ''Hi'', Generate 1 2 ''Hi'' 512 0.7 0.9 None,
       PrintExn ''Error during generation: '' (LibraryError ''boom'')], Inr None)"
    by blast
  from t5 z have c5: "generate_text stopped_clock_world 1 2 ''Hi'' 512 0.7 =
     ([Encode 2 ''Hi'', Generate 1 2 ''Hi'' 512 0.7 0.9 None, Encode 2 ''Hello!'',
       PrintExn ''Error during generation: '' ZeroDivisionError], Inr None)"
    by blast
  from t1 b have c6: "benchmark_main failing_world (Inr (BenchArgs None 1)) =
     (ParseArgs # fst (benchmark_model failing_world None 1) @
        [if LibraryError ''boom'' = KeyboardInterrupt
         then Print ''\<newline>\<newline>Benchmark interrupted by user''
         else PrintExn ''\<newline> Benchmark failed: '' (LibraryError ''boom'')], Inr ())"
    by blast
  from t3 e have c7: "chat failing_world 0 [Inl EOFError] example_chat =
     ([Print (if EOFError = KeyboardInterrupt then ''\<newline>\<newline>Chat interrupted. Goodbye!''
              else ''\<newline>\<newline>End of input. Goodbye!'')], None, example_chat)"
    by blast
  from t6 u k have "\<exists>g. is_Generate g \<and>
         chat ?interrupted 0 [Inr ''Hi''] example_chat =
           ([g, Print ''\<newline>\<newline>Chat interrupted. Goodbye!''], None,
            example_chat\<lparr>conversation_history := conversation_history example_chat @
               [\<lparr>role = ''user'', content = strip ''Hi''\<rparr>]\<rparr>)"
    by blast
  then have c8: "\<exists>g. is_Generate g \<and>
         chat ?interrupted 0 [Inr ''Hi''] example_chat =
           ([g, Print ''\<newline>\<newline>Chat interrupted. Goodbye!''], None,
            example_chat\<lparr>conversation_history := [\<lparr>role = ''user'', content = ''Hi''\<rparr>]\<rparr>)"
    unfolding s by (simp only: example_chat_def LLaMAChat.simps append_Nil)
  from c0 c1 c2 c3 c4 c5 c6 c7 c8 show ?thesis
    by (simp del: chat.simps benchmark_main.simps)
qed

end
